theory Spec2Isabelle
  imports Main
begin

section \<open>Configuration (config.go)\<close>

text \<open>
  Durations (\<^verbatim>\<open>time.Duration\<close>) are counts of nanoseconds; \<^verbatim>\<open>validate\<close> only compares them
  with zero and stores constants, so they are integers here. The \<^verbatim>\<open>Storage\<close> interface has
  three implementations in storage.go; a nil interface value is \<open>None\<close>.
\<close>

record http_client =
  Timeout :: int

record HTTPStorage =
  storageURL :: string
  storageAPIKey :: string
  Client :: "http_client option"
  Retries :: int
  storageEnv :: string

record FileStorage =
  Directory :: string

datatype Storage = HTTP HTTPStorage | File FileStorage | Stdout

text \<open>
  The struct of config.go, with the two fields \<^verbatim>\<open>OutputToStdout\<close> and \<^verbatim>\<open>Env\<close> that
  \<^verbatim>\<open>New\<close> and \<^verbatim>\<open>uploadProfile\<close> read; \<^verbatim>\<open>validate\<close> reads neither.
\<close>

record Config =
  APIKey :: string
  IngestURL :: string
  SampleRate :: int
  ProfileDuration :: int
  Storage :: "Storage option"
  ServiceName :: string
  Tags :: "string \<rightharpoonup> string"
  MemProfileRate :: int
  MutexFraction :: int
  BlockProfileRate :: int
  EnableCPU :: bool
  EnableMemory :: bool
  EnableGoroutine :: bool
  EnableMutex :: bool
  EnableBlock :: bool
  EnableCustom :: bool
  OutputToStdout :: bool
  Env :: string

definition Second :: int where
  "Second = 1000000000"

definition DefaultSampleRate :: int where
  "DefaultSampleRate = 60 * Second"

definition DefaultProfileDuration :: int where
  "DefaultProfileDuration = 10 * Second"

definition DefaultMemProfileRate :: int where
  "DefaultMemProfileRate = 4096"

definition DefaultMutexFraction :: int where
  "DefaultMutexFraction = 5"

definition DefaultBlockProfileRate :: int where
  "DefaultBlockProfileRate = 100"

datatype config_error =
  APIKeyRequired | IngestURLRequired | StorageRequired | ServiceNameRequired

text \<open>The five default substitutions of \<^verbatim>\<open>validate\<close>, in the order of the source.\<close>

definition fill_defaults :: "Config \<Rightarrow> Config" where
  "fill_defaults c =
    (let c1 = (if SampleRate c \<le> 0 then c\<lparr>SampleRate := DefaultSampleRate\<rparr> else c);
         c2 = (if ProfileDuration c1 \<le> 0
               then c1\<lparr>ProfileDuration := DefaultProfileDuration\<rparr> else c1);
         c3 = (if MemProfileRate c2 \<le> 0
               then c2\<lparr>MemProfileRate := DefaultMemProfileRate\<rparr> else c2);
         c4 = (if MutexFraction c3 \<le> 0
               then c3\<lparr>MutexFraction := DefaultMutexFraction\<rparr> else c3);
         c5 = (if BlockProfileRate c4 \<le> 0
               then c4\<lparr>BlockProfileRate := DefaultBlockProfileRate\<rparr> else c4)
     in c5)"

definition no_kind_enabled :: "Config \<Rightarrow> bool" where
  "no_kind_enabled c \<longleftrightarrow>
     \<not> EnableCPU c \<and> \<not> EnableMemory c \<and> \<not> EnableGoroutine c \<and>
     \<not> EnableMutex c \<and> \<not> EnableBlock c \<and> \<not> EnableCustom c"

definition enable_default_kinds :: "Config \<Rightarrow> Config" where
  "enable_default_kinds c =
     (if no_kind_enabled c then c\<lparr>EnableCPU := True, EnableMemory := True\<rparr> else c)"

text \<open>
  \<^verbatim>\<open>func (c *Config) validate() error\<close> mutates the configuration through its pointer:
  the result is the error (\<open>None\<close> for nil) and the configuration as the call leaves it.
  An early return leaves it as it was.
\<close>

definition validate :: "Config \<Rightarrow> config_error option \<times> Config" where
  "validate c =
    (if APIKey c = [] then (Some APIKeyRequired, c)
     else if IngestURL c = [] then (Some IngestURLRequired, c)
     else if Storage c = None then (Some StorageRequired, c)
     else if ServiceName c = [] then (Some ServiceNameRequired, c)
     else (None, enable_default_kinds (fill_defaults c)))"

definition DefaultConfig :: "string \<Rightarrow> string \<Rightarrow> string \<Rightarrow> Config" where
  "DefaultConfig apiKey ingestURL serviceName =
    \<lparr> APIKey = apiKey,
      IngestURL = ingestURL,
      SampleRate = DefaultSampleRate,
      ProfileDuration = DefaultProfileDuration,
      Storage = Some (HTTP \<lparr> storageURL = ingestURL @ ''/upload'', storageAPIKey = apiKey,
                             Client = None, Retries = 0, storageEnv = [] \<rparr>),
      ServiceName = serviceName,
      Tags = Map.empty,
      MemProfileRate = DefaultMemProfileRate,
      MutexFraction = DefaultMutexFraction,
      BlockProfileRate = DefaultBlockProfileRate,
      EnableCPU = True,
      EnableMemory = True,
      EnableGoroutine = False,
      EnableMutex = False,
      EnableBlock = False,
      EnableCustom = False,
      OutputToStdout = False,
      Env = [] \<rparr>"

definition NewHTTPStorage :: "string \<Rightarrow> string \<Rightarrow> string \<Rightarrow> HTTPStorage" where
  "NewHTTPStorage url apiKey env =
    \<lparr> storageURL = url, storageAPIKey = apiKey,
      Client = Some \<lparr> Timeout = 30 * Second \<rparr>, Retries = 3, storageEnv = env \<rparr>"

section \<open>Storage backends (storage.go)\<close>

text \<open>
  What lies outside the repository is a parameter of the model: the URL parser of
  \<^verbatim>\<open>net/url\<close>, the file system, the gzip writer, the JSON encoder and decoder, and the value that the conversion of a
  floating-point number to \<^verbatim>\<open>int64\<close> yields when the number is out of range (the Go
  specification leaves it to the implementation).
\<close>

record parsed_url =
  Scheme :: string
  Host :: string

datatype file_read = OpenError | ReadError | Contents string

datatype gzip_result = WriteError | CloseError | Compressed string

text \<open>
  The answer of the network to the request of one loop iteration: the request cannot be
  built, the transport fails, or a response arrives with a status code and a body
  (\<open>None\<close> when reading the body fails).
\<close>

datatype http_outcome =
    RequestNotCreated
  | TransportFailure
  | Response int "string option"

datatype upload_error =
    URLAndAPIKeyRequired
  | InvalidURL
  | HTTPSRequired
  | OpenFileFailed
  | ReadFileFailed
  | CompressFailed
  | FinalizeCompressionFailed
  | CreateRequestFailed
  | RequestFailed
  | AuthenticationFailed int
  | ServerError int
  | UnexpectedStatusCode int
  | ReadResponseFailed
  | UploadFailedAfter int "upload_error option"
  | NilClientDereference
  | DirectoryRequired
  | OpenSourceFailed
  | CreateDestinationFailed
  | CopyFailed
  | ReadProfileFailed

text \<open>The struct that \<^verbatim>\<open>uploadProfile\<close> decodes the answer of the upload into.\<close>

record upload_response =
  ProfileID :: string
  ProfileURL :: string
  Type :: string

record platform =
  float_out_of_range :: int
  url_parse :: "string \<Rightarrow> parsed_url option"
  read_file :: "string \<Rightarrow> file_read"
  gzip :: "string \<Rightarrow> gzip_result"
  file_copy :: "string \<Rightarrow> string \<Rightarrow> upload_error + string"
  json_marshal :: "(string \<rightharpoonup> string) \<Rightarrow> string option"
  json_unmarshal :: "string \<Rightarrow> upload_response option"

text \<open>
  What an observer of one call sees: the arguments of \<^verbatim>\<open>time.Sleep\<close> in nanoseconds and
  the requests handed to \<^verbatim>\<open>Client.Do\<close>, tagged with the loop counter.
\<close>

datatype event = Sleep int | Send int

text \<open>\<^verbatim>\<open>int64\<close> arithmetic wraps around.\<close>

definition wrap64 :: "int \<Rightarrow> int" where
  "wrap64 x = (x + 2 ^ 63) mod 2 ^ 64 - 2 ^ 63"

definition Millisecond :: int where
  "Millisecond = 1000000"

definition float_to_int64 :: "int \<Rightarrow> int \<Rightarrow> int" where
  "float_to_int64 oor v = (if v < 2 ^ 63 then v else oor)"

text \<open>
  \<^verbatim>\<open>backoff := math.Pow(2, float64(attempt-1)) * 100\<close> followed by
  \<^verbatim>\<open>time.Duration(backoff) * time.Millisecond\<close>, for \<open>attempt > 0\<close>. The product
  \<open>2 ^ (attempt - 1) * 100\<close> is exact in \<^verbatim>\<open>float64\<close> as long as it is finite, and an
  infinite one is out of the range of \<^verbatim>\<open>int64\<close> like every value from \<open>2 ^ 63\<close> on.
\<close>

definition backoff_sleep :: "int \<Rightarrow> int \<Rightarrow> int" where
  "backoff_sleep oor attempt =
     wrap64 (float_to_int64 oor (2 ^ nat (attempt - 1) * 100) * Millisecond)"

text \<open>One pass through the body of the loop, after the backoff sleep.\<close>

datatype attempt_result = Continue upload_error | Return "upload_error + string"

definition attempt_once ::
  "(int \<Rightarrow> http_outcome) \<Rightarrow> HTTPStorage \<Rightarrow> int \<Rightarrow> attempt_result \<times> event list" where
  "attempt_once respond s attempt =
    (case respond attempt of
       RequestNotCreated \<Rightarrow> (Continue CreateRequestFailed, [])
     | TransportFailure \<Rightarrow>
         (case Client s of
            None \<Rightarrow> (Return (Inl NilClientDereference), [])
          | Some _ \<Rightarrow> (Continue RequestFailed, [Send attempt]))
     | Response code body \<Rightarrow>
         (case Client s of
            None \<Rightarrow> (Return (Inl NilClientDereference), [])
          | Some _ \<Rightarrow>
             (if code = 401 \<or> code = 403
                then Return (Inl (AuthenticationFailed code))
              else if code = 429 \<or> (500 \<le> code \<and> code < 600)
                then Continue (ServerError code)
              else if code < 200 \<or> 300 \<le> code
                then Return (Inl (UnexpectedStatusCode code))
              else (case body of
                      None \<Rightarrow> Continue ReadResponseFailed
                    | Some b \<Rightarrow> Return (Inr b)),
              [Send attempt])))"

function uploadLoop ::
  "int \<Rightarrow> (int \<Rightarrow> http_outcome) \<Rightarrow> HTTPStorage \<Rightarrow> int \<Rightarrow> upload_error option \<Rightarrow>
   event list \<Rightarrow> (upload_error + string) \<times> event list" where
  "uploadLoop oor respond s attempt lastErr tr =
    (if attempt < Retries s then
       (let tr1 = (if 0 < attempt then tr @ [Sleep (backoff_sleep oor attempt)] else tr)
        in case attempt_once respond s attempt of
             (Continue e, evs) \<Rightarrow> uploadLoop oor respond s (attempt + 1) (Some e) (tr1 @ evs)
           | (Return r, evs) \<Rightarrow> (r, tr1 @ evs))
     else (Inl (UploadFailedAfter (Retries s) lastErr), tr))"
  by pat_completeness auto
termination
  by (relation "measure (\<lambda>(oor, respond, s, attempt, lastErr, tr). nat (Retries s - attempt))")
    auto

declare uploadLoop.simps [simp del]

definition uploadWithRetries ::
  "int \<Rightarrow> (int \<Rightarrow> http_outcome) \<Rightarrow> HTTPStorage \<Rightarrow> (upload_error + string) \<times> event list" where
  "uploadWithRetries oor respond s = uploadLoop oor respond s 0 None []"

definition readAndCompressFile :: "platform \<Rightarrow> string \<Rightarrow> upload_error + string" where
  "readAndCompressFile pf filePath =
    (case read_file pf filePath of
       OpenError \<Rightarrow> Inl OpenFileFailed
     | ReadError \<Rightarrow> Inl ReadFileFailed
     | Contents fileData \<Rightarrow>
         (case gzip pf fileData of
            WriteError \<Rightarrow> Inl CompressFailed
          | CloseError \<Rightarrow> Inl FinalizeCompressionFailed
          | Compressed buf \<Rightarrow> Inr buf))"

text \<open>
  \<^verbatim>\<open>HTTPStorage.Upload\<close> up to its last line: the checks and the compression, ending in
  the bytes to deliver.
\<close>

definition Upload_prepare :: "platform \<Rightarrow> HTTPStorage \<Rightarrow> string \<Rightarrow> upload_error + string" where
  "Upload_prepare pf s filePath =
    (if storageURL s = [] \<or> storageAPIKey s = [] then Inl URLAndAPIKeyRequired
     else case url_parse pf (storageURL s) of
       None \<Rightarrow> Inl InvalidURL
     | Some parsedURL \<Rightarrow>
         if Scheme parsedURL \<noteq> ''https'' \<and> storageEnv s \<noteq> ''local'' then Inl HTTPSRequired
         else readAndCompressFile pf filePath)"

definition Upload ::
  "platform \<Rightarrow> (int \<Rightarrow> http_outcome) \<Rightarrow> HTTPStorage \<Rightarrow> string \<Rightarrow>
   (upload_error + string) \<times> event list" where
  "Upload pf respond s filePath =
    (case Upload_prepare pf s filePath of
       Inl err \<Rightarrow> (Inl err, [])
     | Inr data \<Rightarrow> uploadWithRetries (float_out_of_range pf) respond s)"

definition attempts :: "event list \<Rightarrow> int list" where
  "attempts tr = concat (map (\<lambda>e. case e of Send a \<Rightarrow> [a] | Sleep _ \<Rightarrow> []) tr)"

definition sleeps :: "event list \<Rightarrow> int list" where
  "sleeps tr = concat (map (\<lambda>e. case e of Sleep d \<Rightarrow> [d] | Send _ \<Rightarrow> []) tr)"

text \<open>
  A decoder for the test platform. It reads a JSON object whose members are string
  literals without escape sequences, takes the three fields by their names, and rejects
  every other text; on the texts of the examples below it agrees with
  \<^verbatim>\<open>json.Unmarshal\<close>.
\<close>

fun skip_ws :: "string \<Rightarrow> string" where
  "skip_ws [] = []"
| "skip_ws (c # cs) =
     (if c = CHR '' '' \<or> c = CHR 0x09 \<or> c = CHR 0x0A \<or> c = CHR 0x0D then skip_ws cs else c # cs)"

fun read_string :: "string \<Rightarrow> (string \<times> string) option" where
  "read_string [] = None"
| "read_string (c # cs) =
     (if c = CHR 0x22 then Some ([], cs)
      else if c = CHR 0x5C then None
      else (case read_string cs of None \<Rightarrow> None | Some (v, rest) \<Rightarrow> Some (c # v, rest)))"

definition set_field :: "string \<Rightarrow> string \<Rightarrow> upload_response \<Rightarrow> upload_response" where
  "set_field key val r =
     (if key = ''profile_id'' then r\<lparr>ProfileID := val\<rparr>
      else if key = ''profile_url'' then r\<lparr>ProfileURL := val\<rparr>
      else if key = ''type'' then r\<lparr>Type := val\<rparr>
      else r)"

fun read_members :: "nat \<Rightarrow> string \<Rightarrow> upload_response \<Rightarrow> upload_response option" where
  "read_members 0 s r = None"
| "read_members (Suc fuel) s r =
     (case skip_ws s of
        q # s1 \<Rightarrow>
          if q \<noteq> CHR 0x22 then None
          else (case read_string s1 of
                  None \<Rightarrow> None
                | Some (key, s2) \<Rightarrow>
                    (case skip_ws s2 of
                       colon # s3 \<Rightarrow>
                         if colon \<noteq> CHR '':'' then None
                         else (case skip_ws s3 of
                                 q' # s4 \<Rightarrow>
                                   if q' \<noteq> CHR 0x22 then None
                                   else (case read_string s4 of
                                           None \<Rightarrow> None
                                         | Some (val, s5) \<Rightarrow>
                                             (case skip_ws s5 of
                                                sep # s6 \<Rightarrow>
                                                  if sep = CHR '','' then
                                                    read_members fuel s6 (set_field key val r)
                                                  else if sep = CHR ''}'' \<and> skip_ws s6 = [] then
                                                    Some (set_field key val r)
                                                  else None
                                              | [] \<Rightarrow> None))
                               | [] \<Rightarrow> None)
                     | [] \<Rightarrow> None))
      | [] \<Rightarrow> None)"

definition decode_response :: "string \<Rightarrow> upload_response option" where
  "decode_response s =
     (case skip_ws s of
        open # rest \<Rightarrow>
          if open \<noteq> CHR ''{'' then None
          else read_members (length s) rest \<lparr> ProfileID = [], ProfileURL = [], Type = [] \<rparr>
      | [] \<Rightarrow> None)"

text \<open>Environments of the test suite and of the examples below.\<close>

definition test_platform :: platform where
  "test_platform =
    \<lparr> float_out_of_range = - (2 ^ 63),
      url_parse = (\<lambda>u. Some \<lparr> Scheme = takeWhile (\<lambda>c. c \<noteq> CHR '':'') u, Host = ''api.pprofio.com'' \<rparr>),
      read_file = (\<lambda>p. Contents ''test profile data''),
      gzip = (\<lambda>d. Compressed d),
      file_copy = (\<lambda>source dir. Inr (dir @ ''/'' @ source)),
      json_marshal = (\<lambda>m. Some ''{}''),
      json_unmarshal = decode_response \<rparr>"

definition test_storage :: "int \<Rightarrow> HTTPStorage" where
  "test_storage n = (NewHTTPStorage ''https://api.pprofio.com/upload'' ''test-key'' [])\<lparr>Retries := n\<rparr>"

definition always_status :: "int \<Rightarrow> int \<Rightarrow> http_outcome" where
  "always_status code attempt = Response code (Some [])"

definition fail_then_succeed :: "int \<Rightarrow> string \<Rightarrow> int \<Rightarrow> http_outcome" where
  "fail_then_succeed n body attempt =
     (if attempt < n - 1 then Response 500 (Some []) else Response 200 (Some body))"

text \<open>The storage that \<^verbatim>\<open>DefaultConfig\<close> builds for the test suite's arguments.\<close>

definition default_test_storage :: HTTPStorage where
  "default_test_storage =
     \<lparr> storageURL = ''https://api.pprofio.com/upload'', storageAPIKey = ''test-key'',
       Client = None, Retries = 0, storageEnv = [] \<rparr>"

text \<open>The events of one pass through the loop: the backoff sleep, then the request.\<close>

definition iteration_events :: "int \<Rightarrow> int \<Rightarrow> event list" where
  "iteration_events oor a = (if 0 < a then [Sleep (backoff_sleep oor a)] else []) @ [Send a]"

text \<open>The \<^verbatim>\<open>Valid config\<close> case of config_test.go, and what \<^verbatim>\<open>validate\<close> makes of it.\<close>

definition test_config :: Config where
  "test_config =
    \<lparr> APIKey = ''test-key'',
      IngestURL = ''https://api.pprofio.com'',
      SampleRate = 0,
      ProfileDuration = 0,
      Storage = Some (HTTP \<lparr> storageURL = ''https://api.pprofio.com/upload'',
                             storageAPIKey = ''test-key'', Client = None, Retries = 0,
                             storageEnv = [] \<rparr>),
      ServiceName = ''test-service'',
      Tags = Map.empty,
      MemProfileRate = 0,
      MutexFraction = 0,
      BlockProfileRate = 0,
      EnableCPU = False,
      EnableMemory = False,
      EnableGoroutine = False,
      EnableMutex = False,
      EnableBlock = False,
      EnableCustom = False,
      OutputToStdout = False,
      Env = [] \<rparr>"


section \<open>Metadata dispatch (metadata.go)\<close>

record metadataClient =
  ingestURL :: string
  apiKey :: string
  client :: "http_client option"
  retries :: int

definition newMetadataClient :: "string \<Rightarrow> string \<Rightarrow> metadataClient" where
  "newMetadataClient url key =
    \<lparr> ingestURL = url, apiKey = key, client = Some \<lparr> Timeout = 10 * Second \<rparr>, retries = 3 \<rparr>"

datatype metadata_error =
    InvalidIngestURL
  | IngestHTTPSRequired
  | MarshalFailed
  | MetaCreateRequestFailed
  | MetaRequestFailed
  | MetaUnexpectedStatusCode int
  | SendMetadataFailedAfter int "metadata_error option"
  | MetaNilClientDereference

text \<open>\<^verbatim>\<open>strings.Contains\<close>.\<close>

fun is_prefix :: "string \<Rightarrow> string \<Rightarrow> bool" where
  "is_prefix [] s = True"
| "is_prefix (c # cs) [] = False"
| "is_prefix (c # cs) (d # ds) = (c = d \<and> is_prefix cs ds)"

fun Contains :: "string \<Rightarrow> string \<Rightarrow> bool" where
  "Contains [] substr = (substr = [])"
| "Contains (c # cs) substr = (is_prefix substr (c # cs) \<or> Contains cs substr)"

text \<open>
  \<^verbatim>\<open>backoffMs := (1 << uint(attempt)) * 100\<close> in \<^verbatim>\<open>int\<close> (64 bits), then
  \<^verbatim>\<open>time.Duration(backoffMs) * time.Millisecond\<close>.
\<close>

definition metadata_backoff :: "int \<Rightarrow> int" where
  "metadata_backoff attempt = wrap64 (wrap64 (wrap64 (2 ^ nat attempt) * 100) * Millisecond)"

datatype send_result = Sent | Failed metadata_error | Panicked

definition sendRequest ::
  "(int \<Rightarrow> http_outcome) \<Rightarrow> metadataClient \<Rightarrow> int \<Rightarrow> send_result \<times> event list" where
  "sendRequest respond m attempt =
    (case respond attempt of
       RequestNotCreated \<Rightarrow> (Failed MetaCreateRequestFailed, [])
     | TransportFailure \<Rightarrow>
         (case client m of
            None \<Rightarrow> (Panicked, [])
          | Some _ \<Rightarrow> (Failed MetaRequestFailed, [Send attempt]))
     | Response code body \<Rightarrow>
         (case client m of
            None \<Rightarrow> (Panicked, [])
          | Some _ \<Rightarrow>
             (if code < 200 \<or> 300 \<le> code then Failed (MetaUnexpectedStatusCode code) else Sent,
              [Send attempt])))"

function metadataLoop ::
  "(int \<Rightarrow> http_outcome) \<Rightarrow> metadataClient \<Rightarrow> int \<Rightarrow> metadata_error option \<Rightarrow>
   event list \<Rightarrow> metadata_error option \<times> event list" where
  "metadataLoop respond m attempt lastErr tr =
    (if attempt < retries m then
       (case sendRequest respond m attempt of
          (Failed err, evs) \<Rightarrow>
            metadataLoop respond m (attempt + 1) (Some err)
              (tr @ evs @ [Sleep (metadata_backoff attempt)])
        | (Sent, evs) \<Rightarrow> (None, tr @ evs)
        | (Panicked, evs) \<Rightarrow> (Some MetaNilClientDereference, tr @ evs))
     else (Some (SendMetadataFailedAfter (retries m) lastErr), tr))"
  by pat_completeness auto
termination
  by (relation "measure (\<lambda>(respond, m, attempt, lastErr, tr). nat (retries m - attempt))") auto

declare metadataLoop.simps [simp del]

definition sendMetadata_prepare ::
  "platform \<Rightarrow> metadataClient \<Rightarrow> (string \<rightharpoonup> string) \<Rightarrow> metadata_error + string" where
  "sendMetadata_prepare pf m metadata =
    (case url_parse pf (ingestURL m) of
       None \<Rightarrow> Inl InvalidIngestURL
     | Some parsedURL \<Rightarrow>
         if Scheme parsedURL \<noteq> ''https'' \<and> \<not> Contains (Host parsedURL) ''localhost'' \<and>
            \<not> Contains (Host parsedURL) ''127.0.0.1''
         then Inl IngestHTTPSRequired
         else (case json_marshal pf metadata of
                 None \<Rightarrow> Inl MarshalFailed
               | Some payload \<Rightarrow> Inr payload))"

definition sendMetadata ::
  "platform \<Rightarrow> (int \<Rightarrow> http_outcome) \<Rightarrow> metadataClient \<Rightarrow> (string \<rightharpoonup> string) \<Rightarrow>
   metadata_error option \<times> event list" where
  "sendMetadata pf respond m metadata =
    (case sendMetadata_prepare pf m metadata of
       Inl err \<Rightarrow> (Some err, [])
     | Inr payload \<Rightarrow> metadataLoop respond m 0 None [])"

text \<open>The failures \<^verbatim>\<open>sendRequest\<close> reports once a request has been sent, and their errors.\<close>

definition request_failed :: "http_outcome \<Rightarrow> bool" where
  "request_failed outcome =
     (case outcome of
        RequestNotCreated \<Rightarrow> False
      | TransportFailure \<Rightarrow> True
      | Response code body \<Rightarrow> code < 200 \<or> 300 \<le> code)"

definition request_error :: "http_outcome \<Rightarrow> metadata_error" where
  "request_error outcome =
     (case outcome of
        RequestNotCreated \<Rightarrow> MetaCreateRequestFailed
      | TransportFailure \<Rightarrow> MetaRequestFailed
      | Response code body \<Rightarrow> MetaUnexpectedStatusCode code)"

definition request_succeeded :: "http_outcome \<Rightarrow> bool" where
  "request_succeeded outcome =
     (case outcome of Response code body \<Rightarrow> 200 \<le> code \<and> code < 300 | _ \<Rightarrow> False)"

definition retry_events :: "int \<Rightarrow> event list" where
  "retry_events a = [Send a, Sleep (metadata_backoff a)]"

text \<open>The client and a record of the test suite.\<close>

definition test_metadata_client :: metadataClient where
  "test_metadata_client = newMetadataClient ''https://api.pprofio.com'' ''test-key''"


section \<open>The profiler and its lifecycle (pprofio.go)\<close>

datatype profileType =
  profileTypeCPU | profileTypeMemory | profileTypeGoroutine | profileTypeMutex |
  profileTypeBlock | profileTypeCustom

record Span =
  Name :: string
  Start :: int
  Duration :: int
  SpanTags :: "string \<rightharpoonup> string"

text \<open>
  A channel has an identity (its index in the store), a closed flag, and, when buffered,
  the values waiting in it and its capacity.
\<close>

record chan =
  closed :: bool
  buffer :: "Span list"
  capacity :: nat

datatype span_status = Running | Deadlocked | Exited

text \<open>
  The local variables of one \<^verbatim>\<open>processCustomSpans\<close> goroutine: the map from span name to
  spans (an association list, so that \<^verbatim>\<open>len(spans)\<close> can be read), whether \<^verbatim>\<open>spansLock\<close> is
  held, the snapshots handed to \<^verbatim>\<open>processSpans\<close>, and where the goroutine stands.
\<close>

record span_task =
  spans :: "(string \<times> Span list) list"
  spansLock :: bool
  handed :: "(string \<times> Span list) list list"
  status :: span_status

text \<open>
  The state outside the profiler: the channels, the profiling knobs of the Go runtime, and
  the goroutines that \<^verbatim>\<open>start\<close> launched and that have not returned.
\<close>

record world =
  chans :: "chan list"
  runtime_MemProfileRate :: int
  runtime_MutexProfileFraction :: int
  runtime_BlockProfileRate :: int
  collectors :: "profileType list"
  span_processor :: "span_task option"

record Profiler =
  config :: Config
  stopCh :: nat
  wg :: int
  initialized :: bool
  spanCh :: nat
  originalMemProfileRate :: int
  originalMutexFraction :: int
  originalBlockProfileRate :: int

datatype profiler_error = InvalidConfiguration config_error | AlreadyStarted

definition make_chan :: "nat \<Rightarrow> world \<Rightarrow> nat \<times> world" where
  "make_chan cap w =
     (length (chans w), w\<lparr>chans := chans w @ [\<lparr>closed = False, buffer = [], capacity = cap\<rparr>]\<rparr>)"

definition is_closed :: "world \<Rightarrow> nat \<Rightarrow> bool" where
  "is_closed w c = (c < length (chans w) \<and> closed (chans w ! c))"

definition close_chan :: "nat \<Rightarrow> world \<Rightarrow> world" where
  "close_chan c w = w\<lparr>chans := (chans w)[c := (chans w ! c)\<lparr>closed := True\<rparr>]\<rparr>"

definition newProfiler :: "Config \<Rightarrow> world \<Rightarrow> (profiler_error + Profiler) \<times> world" where
  "newProfiler cfg w =
    (case validate cfg of
       (Some err, _) \<Rightarrow> (Inl (InvalidConfiguration err), w)
     | (None, cfg') \<Rightarrow>
         (let (stop, w1) = make_chan 0 w;
              (span, w2) = make_chan 1000 w1
          in (Inr \<lparr> config = cfg', stopCh = stop, wg = 0, initialized = False, spanCh = span,
                     originalMemProfileRate = 0, originalMutexFraction = 0,
                     originalBlockProfileRate = 0 \<rparr>, w2)))"

text \<open>The three steps of \<^verbatim>\<open>New\<close> before it calls \<^verbatim>\<open>newProfiler\<close>.\<close>

definition zero_defaults :: "Config \<Rightarrow> Config" where
  "zero_defaults cfg =
    (let c1 = (if SampleRate cfg = 0 then cfg\<lparr>SampleRate := DefaultSampleRate\<rparr> else cfg);
         c2 = (if ProfileDuration c1 = 0
               then c1\<lparr>ProfileDuration := DefaultProfileDuration\<rparr> else c1);
         c3 = (if MemProfileRate c2 = 0
               then c2\<lparr>MemProfileRate := DefaultMemProfileRate\<rparr> else c2);
         c4 = (if MutexFraction c3 = 0
               then c3\<lparr>MutexFraction := DefaultMutexFraction\<rparr> else c3);
         c5 = (if BlockProfileRate c4 = 0
               then c4\<lparr>BlockProfileRate := DefaultBlockProfileRate\<rparr> else c4)
     in c5)"

definition choose_storage :: "Config \<Rightarrow> Config" where
  "choose_storage cfg =
    (if OutputToStdout cfg then cfg\<lparr>Storage := Some Stdout\<rparr>
     else if Storage cfg = None \<and> APIKey cfg \<noteq> [] \<and> IngestURL cfg \<noteq> []
     then cfg\<lparr>Storage := Some (HTTP (NewHTTPStorage (IngestURL cfg @ ''/upload'')
                                        (APIKey cfg) (Env cfg)))\<rparr>
     else cfg)"

definition New :: "Config \<Rightarrow> world \<Rightarrow> (profiler_error + Profiler) \<times> world" where
  "New cfg w = newProfiler (enable_default_kinds (choose_storage (zero_defaults cfg))) w"

text \<open>
  \<^verbatim>\<open>runtime.SetMutexProfileFraction\<close> leaves the fraction as it is for a negative argument;
  \<^verbatim>\<open>runtime.SetBlockProfileRate\<close> turns a non-positive rate into 0.
\<close>

definition SetMutexProfileFraction :: "int \<Rightarrow> world \<Rightarrow> world" where
  "SetMutexProfileFraction rate w =
     (if rate < 0 then w else w\<lparr>runtime_MutexProfileFraction := rate\<rparr>)"

definition SetBlockProfileRate :: "int \<Rightarrow> world \<Rightarrow> world" where
  "SetBlockProfileRate rate w = w\<lparr>runtime_BlockProfileRate := (if rate \<le> 0 then 0 else rate)\<rparr>"

text \<open>\<^verbatim>\<open>p.wg.Add(1); go p.collectProfiles(ctx, kind)\<close>, when the kind is enabled.\<close>

definition launch :: "bool \<Rightarrow> profileType \<Rightarrow> Profiler \<times> world \<Rightarrow> Profiler \<times> world" where
  "launch enabled kind pw =
     (if enabled
      then (case pw of (p, w) \<Rightarrow> (p\<lparr>wg := wg p + 1\<rparr>, w\<lparr>collectors := collectors w @ [kind]\<rparr>))
      else pw)"

definition new_span_task :: span_task where
  "new_span_task = \<lparr> spans = [], spansLock = False, handed = [], status = Running \<rparr>"

definition launch_span_processor :: "bool \<Rightarrow> Profiler \<times> world \<Rightarrow> Profiler \<times> world" where
  "launch_span_processor enabled pw =
     (if enabled
      then (case pw of (p, w) \<Rightarrow>
              (p\<lparr>wg := wg p + 1\<rparr>, w\<lparr>span_processor := Some new_span_task\<rparr>))
      else pw)"

text \<open>
  \<^verbatim>\<open>start\<close>, under the profiler's mutex: the saved knobs, the configured knobs, one goroutine
  per enabled kind. No channel is made here.
\<close>

definition start :: "Profiler \<Rightarrow> world \<Rightarrow> profiler_error option \<times> Profiler \<times> world" where
  "start p w =
    (if initialized p then (Some AlreadyStarted, p, w)
     else
       (let cfg = config p;
            p1 = p\<lparr> originalMemProfileRate := runtime_MemProfileRate w,
                    originalMutexFraction := 0,
                    originalBlockProfileRate := 0 \<rparr>;
            w1 = (if EnableMemory cfg then w\<lparr>runtime_MemProfileRate := MemProfileRate cfg\<rparr>
                  else w);
            w2 = (if EnableMutex cfg then SetMutexProfileFraction (MutexFraction cfg) w1 else w1);
            w3 = (if EnableBlock cfg then SetBlockProfileRate (BlockProfileRate cfg) w2 else w2);
            (p2, w4) =
              launch_span_processor (EnableCustom cfg)
                (launch (EnableBlock cfg) profileTypeBlock
                  (launch (EnableMutex cfg) profileTypeMutex
                    (launch (EnableGoroutine cfg) profileTypeGoroutine
                      (launch (EnableMemory cfg) profileTypeMemory
                        (launch (EnableCPU cfg) profileTypeCPU (p1, w3))))))
        in (None, p2\<lparr>initialized := True\<rparr>, w4)))"

text \<open>
  \<^verbatim>\<open>stop\<close>: close the stop channel unless it is closed already, wait for the goroutines,
  restore the knobs. Every goroutine that is in its \<^verbatim>\<open>select\<close> finds the closed channel
  ready and returns; one that is blocked on its lock never does, and then \<^verbatim>\<open>wg.Wait\<close>
  and with it \<^verbatim>\<open>stop\<close> never return (\<open>None\<close>).
\<close>

definition deadlocked :: "world \<Rightarrow> bool" where
  "deadlocked w = (case span_processor w of Some t \<Rightarrow> status t = Deadlocked | None \<Rightarrow> False)"

definition stop :: "Profiler \<Rightarrow> world \<Rightarrow> (Profiler \<times> world) option" where
  "stop p w =
    (if \<not> initialized p then Some (p, w)
     else
       (let w1 = (if is_closed w (stopCh p) then w else close_chan (stopCh p) w)
        in if deadlocked w1 then None
           else Some (p\<lparr>wg := 0, initialized := False\<rparr>,
                      SetBlockProfileRate (originalBlockProfileRate p)
                        (SetMutexProfileFraction (originalMutexFraction p)
                          (w1\<lparr> collectors := [], span_processor := None,
                                runtime_MemProfileRate := originalMemProfileRate p \<rparr>)))))"

text \<open>
  The \<^verbatim>\<open>select\<close> of \<^verbatim>\<open>collectProfiles\<close>: the cases that are ready, in the order of the source.
  The Go runtime picks one of the ready cases and blocks while none is.
\<close>

datatype select_case = SpanCase | TickerCase | StopCase | DoneCase

definition ready_cases :: "bool \<Rightarrow> bool \<Rightarrow> bool \<Rightarrow> select_case list" where
  "ready_cases ticker_fired stop_closed ctx_done =
     (if ticker_fired then [TickerCase] else []) @
     (if stop_closed then [StopCase] else []) @
     (if ctx_done then [DoneCase] else [])"

text \<open>
  \<^verbatim>\<open>collectProfiles\<close> after its first, immediate collection. Each element of the schedule
  says whether the ticker has fired and whether the context is done when the goroutine
  reaches its \<^verbatim>\<open>select\<close>; \<open>pick\<close> is the runtime's pick among the ready cases. The result
  is the number of collections made and whether the goroutine has returned.
\<close>

fun collectLoop ::
  "(select_case list \<Rightarrow> select_case) \<Rightarrow> bool \<Rightarrow> (bool \<times> bool) list \<Rightarrow> nat \<Rightarrow> nat \<times> bool" where
  "collectLoop pick stop_closed [] n = (n, False)"
| "collectLoop pick stop_closed ((ticker_fired, ctx_done) # schedule) n =
     (let ready = ready_cases ticker_fired stop_closed ctx_done
      in if ready = [] then collectLoop pick stop_closed schedule n
         else (case pick ready of
                 TickerCase \<Rightarrow> collectLoop pick stop_closed schedule (n + 1)
               | _ \<Rightarrow> (n, True)))"

definition collectProfiles ::
  "(select_case list \<Rightarrow> select_case) \<Rightarrow> Profiler \<Rightarrow> world \<Rightarrow> (bool \<times> bool) list \<Rightarrow> nat \<times> bool" where
  "collectProfiles pick p w schedule = collectLoop pick (is_closed w (stopCh p)) schedule 1"

text \<open>The pick that keeps a collector running as long as it can: the ticker whenever it is ready.\<close>

definition prefer_ticker :: "select_case list \<Rightarrow> select_case" where
  "prefer_ticker ready = (if TickerCase \<in> set ready then TickerCase else hd ready)"

definition initial_world :: world where
  "initial_world =
    \<lparr> chans = [], runtime_MemProfileRate = 524288, runtime_MutexProfileFraction = 0,
      runtime_BlockProfileRate = 0, collectors = [], span_processor = None \<rparr>"

definition cpu_config :: Config where
  "cpu_config = test_config\<lparr>EnableCPU := True\<rparr>"

definition test_profiler :: Profiler where
  "test_profiler = projr (fst (newProfiler cpu_config initial_world))"

definition test_world :: world where
  "test_world = snd (newProfiler cpu_config initial_world)"

section \<open>Custom spans\<close>

text \<open>The loop of \<^verbatim>\<open>StartSpan\<close> over the alternating keys and values.\<close>

fun tags_of :: "string list \<Rightarrow> (string \<rightharpoonup> string) \<Rightarrow> (string \<rightharpoonup> string)" where
  "tags_of (key # val # rest) m = tags_of rest (m(key \<mapsto> val))"
| "tags_of rest m = m"

text \<open>
  \<^verbatim>\<open>StartSpan\<close>: the context carries a profiler or none; the send on \<^verbatim>\<open>spanCh\<close> does not
  block, so a span that finds the buffer full is dropped.
\<close>

definition send_span :: "nat \<Rightarrow> Span \<Rightarrow> world \<Rightarrow> world" where
  "send_span c span w =
     (let ch = chans w ! c
      in if length (buffer ch) < capacity ch
         then w\<lparr>chans := (chans w)[c := ch\<lparr>buffer := buffer ch @ [span]\<rparr>]\<rparr>
         else w)"

definition StartSpan ::
  "Profiler option \<Rightarrow> int \<Rightarrow> string \<Rightarrow> string list \<Rightarrow> world \<Rightarrow> Span \<times> world" where
  "StartSpan prof now name tags w =
    (let span = \<lparr> Name = name, Start = now, Duration = 0, SpanTags = tags_of tags Map.empty \<rparr>
     in case prof of
          None \<Rightarrow> (span, w)
        | Some p \<Rightarrow> (span, send_span (spanCh p) span w))"

text \<open>\<^verbatim>\<open>spans[span.Name] = append(spans[span.Name], span)\<close>.\<close>

fun append_span :: "(string \<times> Span list) list \<Rightarrow> Span \<Rightarrow> (string \<times> Span list) list" where
  "append_span [] span = [(Name span, [span])]"
| "append_span ((name, bucket) # rest) span =
     (if name = Name span then (name, bucket @ [span]) # rest
      else (name, bucket) # append_span rest span)"

text \<open>
  \<^verbatim>\<open>spansLock.Lock()\<close>: the lock is a local variable of the goroutine, so when it is held
  already nobody can release it and the goroutine blocks for good.
\<close>

definition Lock :: "span_task \<Rightarrow> span_task" where
  "Lock t = (if spansLock t then t\<lparr>status := Deadlocked\<rparr> else t\<lparr>spansLock := True\<rparr>)"

definition Unlock :: "span_task \<Rightarrow> span_task" where
  "Unlock t = t\<lparr>spansLock := False\<rparr>"

text \<open>The three arms of the \<^verbatim>\<open>select\<close> of \<^verbatim>\<open>processCustomSpans\<close>.\<close>

definition on_span :: "Span \<Rightarrow> span_task \<Rightarrow> span_task" where
  "on_span span t =
     (let t1 = Lock t
      in if status t1 = Deadlocked then t1
         else Lock (t1\<lparr>spans := append_span (spans t1) span\<rparr>))"

definition on_flush :: "span_task \<Rightarrow> span_task" where
  "on_flush t =
     (let t1 = Lock t
      in if status t1 = Deadlocked then t1
         else if spans t1 \<noteq> []
         then Unlock (t1\<lparr>handed := handed t1 @ [spans t1], spans := []\<rparr>)
         else Unlock t1)"

text \<open>
  One pass through the loop of \<^verbatim>\<open>processCustomSpans\<close> for the case the runtime picked. A
  goroutine that is blocked or has returned takes no further step, and the span case is
  ready only while the channel holds a span.
\<close>

definition span_step :: "Profiler \<Rightarrow> world \<Rightarrow> select_case \<Rightarrow> world" where
  "span_step p w picked =
    (case span_processor w of
       None \<Rightarrow> w
     | Some t \<Rightarrow>
         if status t \<noteq> Running then w
         else (case picked of
                 SpanCase \<Rightarrow>
                   (let ch = chans w ! spanCh p
                    in case buffer ch of
                         [] \<Rightarrow> w
                       | span # rest \<Rightarrow>
                           w\<lparr> chans := (chans w)[spanCh p := ch\<lparr>buffer := rest\<rparr>],
                              span_processor := Some (on_span span t) \<rparr>)
               | TickerCase \<Rightarrow> w\<lparr>span_processor := Some (on_flush t)\<rparr>
               | StopCase \<Rightarrow>
                   (if is_closed w (stopCh p) then w\<lparr>span_processor := Some (t\<lparr>status := Exited\<rparr>)\<rparr>
                    else w)
               | DoneCase \<Rightarrow> w\<lparr>span_processor := Some (t\<lparr>status := Exited\<rparr>)\<rparr>))"

definition processCustomSpans :: "Profiler \<Rightarrow> world \<Rightarrow> select_case list \<Rightarrow> world" where
  "processCustomSpans p w picks = foldl (span_step p) w picks"

definition custom_config :: Config where
  "custom_config = test_config\<lparr>EnableCustom := True\<rparr>"

definition custom_profiler :: Profiler where
  "custom_profiler = projr (fst (newProfiler custom_config initial_world))"

definition custom_world :: world where
  "custom_world = snd (newProfiler custom_config initial_world)"

definition custom_started :: Profiler where
  "custom_started = fst (snd (start custom_profiler custom_world))"

definition custom_started_world :: world where
  "custom_started_world = snd (snd (start custom_profiler custom_world))"

definition test_span_1 :: Span where
  "test_span_1 = fst (StartSpan (Some custom_started) 100 ''db.query'' [''table'', ''users'']
     custom_started_world)"

definition test_span_2 :: Span where
  "test_span_2 = fst (StartSpan (Some custom_started) 200 ''db.query'' [''table'', ''orders'']
     custom_started_world)"

definition two_spans_started :: world where
  "two_spans_started =
     snd (StartSpan (Some custom_started) 200 ''db.query'' [''table'', ''orders'']
       (snd (StartSpan (Some custom_started) 100 ''db.query'' [''table'', ''users'']
          custom_started_world)))"

text \<open>The configuration of examples/basic with the identity fields left out.\<close>

definition file_config :: Config where
  "file_config =
     test_config\<lparr> APIKey := [], IngestURL := [],
                   Storage := Some (File \<lparr> Directory = ''/tmp/pprofio-example'' \<rparr>),
                   EnableCPU := True, EnableMemory := True \<rparr>"

definition file_config_with_identity :: Config where
  "file_config_with_identity =
     file_config\<lparr> APIKey := ''test-api-key'', IngestURL := ''https://api.pprofio.com'' \<rparr>"

definition started_profiler :: Profiler where
  "started_profiler = fst (snd (start test_profiler test_world))"

definition started_world :: world where
  "started_world = snd (snd (start test_profiler test_world))"

definition stopped_profiler :: Profiler where
  "stopped_profiler = fst (the (stop started_profiler started_world))"

definition stopped_world :: world where
  "stopped_world = snd (the (stop started_profiler started_world))"

section \<open>Uploading a profile and its metadata\<close>

text \<open>\<^verbatim>\<open>Storage.Upload\<close> for the three implementations.\<close>

definition Storage_Upload ::
  "platform \<Rightarrow> (int \<Rightarrow> http_outcome) \<Rightarrow> Storage \<Rightarrow> string \<Rightarrow>
   (upload_error + string) \<times> event list" where
  "Storage_Upload pf respond st filePath =
    (case st of
       HTTP s \<Rightarrow> Upload pf respond s filePath
     | File s \<Rightarrow>
         (if Directory s = [] then (Inl DirectoryRequired, [])
          else (file_copy pf filePath (Directory s), []))
     | Stdout \<Rightarrow>
         (case read_file pf filePath of
            Contents data \<Rightarrow> (Inr ''stdout'', [])
          | _ \<Rightarrow> (Inl ReadProfileFailed, [])))"

text \<open>\<^verbatim>\<open>fmt.Sprintf("%d", n)\<close>.\<close>

fun decimal_nat :: "nat \<Rightarrow> string" where
  "decimal_nat n =
     (if n < 10 then [char_of (48 + n)]
      else decimal_nat (n div 10) @ [char_of (48 + n mod 10)])"

declare decimal_nat.simps [simp del]

definition decimal :: "int \<Rightarrow> string" where
  "decimal i = (if i < 0 then CHR ''-'' # decimal_nat (nat (- i)) else decimal_nat (nat i))"

datatype profile_error =
    NilStorage
  | UploadProfileFailed upload_error
  | ParseResponseFailed
  | OutputMetadataFailed
  | SendMetadataFailed metadata_error

text \<open>
  What one call of \<^verbatim>\<open>uploadProfile\<close> leaves behind: the error it returns, the record it
  handed to \<^verbatim>\<open>sendMetadata\<close>, and the record it handed to \<^verbatim>\<open>OutputMetadata\<close>.
\<close>

record upload_outcome =
  failure :: "profile_error option"
  dispatched :: "(string \<rightharpoonup> string) option"
  printed :: "(string \<rightharpoonup> string) option"

text \<open>The map literal of \<^verbatim>\<open>uploadProfile\<close>, then the loop that stores the user's tags.\<close>

definition build_metadata ::
  "Config \<Rightarrow> upload_response \<Rightarrow> int \<Rightarrow> (string \<rightharpoonup> string)" where
  "build_metadata cfg response now =
     [''profile_id'' \<mapsto> ProfileID response,
      ''profile_url'' \<mapsto> ProfileURL response,
      ''service'' \<mapsto> ServiceName cfg,
      ''type'' \<mapsto> Type response,
      ''timestamp'' \<mapsto> decimal now] ++ Tags cfg"

text \<open>
  \<^verbatim>\<open>uploadProfile(ctx, filePath, profileType)\<close>; \<open>now\<close> is \<^verbatim>\<open>time.Now().Unix()\<close>. The
  body never reads its parameter \<^verbatim>\<open>profileType\<close>.
\<close>

definition uploadProfile ::
  "platform \<Rightarrow> (int \<Rightarrow> http_outcome) \<Rightarrow> (int \<Rightarrow> http_outcome) \<Rightarrow> int \<Rightarrow> Profiler \<Rightarrow>
   string \<Rightarrow> string \<Rightarrow> upload_outcome" where
  "uploadProfile pf respond_upload respond_metadata now p filePath profileType =
    (case Storage (config p) of
       None \<Rightarrow> \<lparr> failure = Some NilStorage, dispatched = None, printed = None \<rparr>
     | Some st \<Rightarrow>
        (case fst (Storage_Upload pf respond_upload st filePath) of
           Inl err \<Rightarrow>
             \<lparr> failure = Some (UploadProfileFailed err), dispatched = None, printed = None \<rparr>
         | Inr uploadResp \<Rightarrow>
            (case json_unmarshal pf uploadResp of
               None \<Rightarrow> \<lparr> failure = Some ParseResponseFailed, dispatched = None, printed = None \<rparr>
             | Some response \<Rightarrow>
                (let metadata = build_metadata (config p) response now
                 in if OutputToStdout (config p) then
                      (case st of
                         Stdout \<Rightarrow>
                           (case json_marshal pf metadata of
                              None \<Rightarrow> \<lparr> failure = Some OutputMetadataFailed, dispatched = None,
                                        printed = Some metadata \<rparr>
                            | Some jsonData \<Rightarrow>
                                \<lparr> failure = None, dispatched = None, printed = Some metadata \<rparr>)
                       | _ \<Rightarrow> \<lparr> failure = None, dispatched = None, printed = None \<rparr>)
                    else
                      (case fst (sendMetadata pf respond_metadata
                                   (newMetadataClient (IngestURL (config p)) (APIKey (config p)))
                                   metadata) of
                         None \<Rightarrow> \<lparr> failure = None, dispatched = Some metadata, printed = None \<rparr>
                       | Some err \<Rightarrow>
                           \<lparr> failure = Some (SendMetadataFailed err), dispatched = Some metadata,
                             printed = None \<rparr>)))))"

definition always_ok :: "string \<Rightarrow> int \<Rightarrow> http_outcome" where
  "always_ok body attempt = Response 200 (Some body)"

text \<open>The profiler of \<^verbatim>\<open>TestUploadProfileWithCorrectFlow\<close>, and a profiler in stdout mode.\<close>

definition flow_profiler :: Profiler where
  "flow_profiler =
     \<lparr> config = test_config\<lparr> Storage := Some (HTTP (test_storage 3)),
                             Tags := [''env'' \<mapsto> ''test''] \<rparr>,
       stopCh = 0, wg = 0, initialized = False, spanCh = 1, originalMemProfileRate = 0,
       originalMutexFraction = 0, originalBlockProfileRate = 0 \<rparr>"

definition stdout_profiler :: Profiler where
  "stdout_profiler =
     flow_profiler\<lparr> config := (config flow_profiler)\<lparr> Storage := Some Stdout,
                                                       OutputToStdout := True \<rparr> \<rparr>"

definition plain_locator :: string where
  "plain_locator = ''https://storage.pprofio.com/profiles/abc123.pprof''"

definition json_locator :: string where
  \<open>json_locator =
     ''{"profile_id":"abc123","profile_url":"https://storage.pprofio.com/profiles/abc123.pprof","type":"cpu"}''\<close>

section \<open>Validation is idempotent\<close>

lemma fill_defaults_flags:
  "EnableCPU (fill_defaults c) = EnableCPU c"
  "EnableMemory (fill_defaults c) = EnableMemory c"
  "EnableGoroutine (fill_defaults c) = EnableGoroutine c"
  "EnableMutex (fill_defaults c) = EnableMutex c"
  "EnableBlock (fill_defaults c) = EnableBlock c"
  "EnableCustom (fill_defaults c) = EnableCustom c"
  by (simp_all add: fill_defaults_def Let_def)






lemma enable_default_kinds_fields:
  "SampleRate (enable_default_kinds c) = SampleRate c"
  "ProfileDuration (enable_default_kinds c) = ProfileDuration c"
  "MemProfileRate (enable_default_kinds c) = MemProfileRate c"
  "MutexFraction (enable_default_kinds c) = MutexFraction c"
  "BlockProfileRate (enable_default_kinds c) = BlockProfileRate c"
  "APIKey (enable_default_kinds c) = APIKey c"
  "IngestURL (enable_default_kinds c) = IngestURL c"
  "Storage (enable_default_kinds c) = Storage c"
  "ServiceName (enable_default_kinds c) = ServiceName c"
  by (simp_all add: enable_default_kinds_def)

lemma validate_success_shape:
  assumes "validate c = (None, c')"
  shows "c' = enable_default_kinds (fill_defaults c)"
    and "APIKey c \<noteq> []" and "IngestURL c \<noteq> []" and "Storage c \<noteq> None"
    and "ServiceName c \<noteq> []"
  using assms by (auto simp: validate_def split: if_splits)






section \<open>The retry loop of the network uploader\<close>

lemma attempt_once_auth:
  assumes "Client s \<noteq> None" "respond a = Response code body" "code = 401 \<or> code = 403"
  shows "attempt_once respond s a = (Return (Inl (AuthenticationFailed code)), [Send a])"
  using assms by (auto simp: attempt_once_def split: option.splits)

lemma attempt_once_retryable:
  assumes "Client s \<noteq> None" "respond a = Response code body"
    "code = 429 \<or> (500 \<le> code \<and> code < 600)"
  shows "attempt_once respond s a = (Continue (ServerError code), [Send a])"
  using assms by (auto simp: attempt_once_def split: option.splits)

lemma attempt_once_success:
  assumes "Client s \<noteq> None" "respond a = Response code (Some b)" "200 \<le> code" "code < 300"
  shows "attempt_once respond s a = (Return (Inr b), [Send a])"
  using assms by (auto simp: attempt_once_def split: option.splits)

lemma uploadLoop_exhausted:
  "\<not> attempt < Retries s \<Longrightarrow>
   uploadLoop oor respond s attempt lastErr tr = (Inl (UploadFailedAfter (Retries s) lastErr), tr)"
  by (simp add: uploadLoop.simps)

lemma uploadLoop_step_continue:
  assumes "attempt < Retries s" "attempt_once respond s attempt = (Continue e, evs)"
  shows "uploadLoop oor respond s attempt lastErr tr =
    uploadLoop oor respond s (attempt + 1) (Some e)
      ((if 0 < attempt then tr @ [Sleep (backoff_sleep oor attempt)] else tr) @ evs)"
  using assms by (subst uploadLoop.simps) (simp add: Let_def)

lemma uploadLoop_step_return:
  assumes "attempt < Retries s" "attempt_once respond s attempt = (Return r, evs)"
  shows "uploadLoop oor respond s attempt lastErr tr =
    (r, (if 0 < attempt then tr @ [Sleep (backoff_sleep oor attempt)] else tr) @ evs)"
  using assms by (subst uploadLoop.simps) (simp add: Let_def)

lemma step_events:
  "(if 0 < a then tr @ [Sleep (backoff_sleep oor a)] else tr) @ [Send a] =
   tr @ iteration_events oor a"
  by (simp add: iteration_events_def)

lemma uploadLoop_fail_then_succeed:
  assumes client: "Client s \<noteq> None"
    and fails: "\<forall>i. 0 \<le> i \<and> i < n - 1 \<longrightarrow> (\<exists>b. respond i = Response 500 b)"
    and succ: "respond (n - 1) = Response code (Some body)" "200 \<le> code" "code < 300"
    and n: "n \<le> Retries s"
  shows "0 \<le> a \<Longrightarrow> a \<le> n - 1 \<Longrightarrow> k = nat (n - 1 - a) \<Longrightarrow>
    uploadLoop oor respond s a lastErr tr =
      (Inr body, tr @ concat (map (iteration_events oor) [a..n - 1]))"
proof (induction k arbitrary: a lastErr tr)
  case 0
  then have a: "a = n - 1" by simp
  have lt: "a < Retries s" using a n by simp
  have once: "attempt_once respond s a = (Return (Inr body), [Send a])"
    using client succ a by (simp add: attempt_once_success)
  show ?case
    unfolding uploadLoop_step_return [OF lt once] step_events
    using a by simp
next
  case (Suc k)
  then have a: "a < n - 1" "0 \<le> a" by simp_all
  have lt: "a < Retries s" using a n by simp
  obtain b where b: "respond a = Response 500 b" using fails a by blast
  have once: "attempt_once respond s a = (Continue (ServerError 500), [Send a])"
    using client b by (simp add: attempt_once_retryable)
  have upto: "[a..n - 1] = a # [a + 1..n - 1]"
    using a by (simp add: upto_rec1)
  have k: "k = nat (n - 1 - (a + 1))" using Suc.prems by simp
  have step: "0 \<le> a + 1" "a + 1 \<le> n - 1" using a by simp_all
  show ?case
    unfolding uploadLoop_step_continue [OF lt once] step_events Suc.IH [OF step k] upto
    by simp
qed

lemma attempts_iterations: "attempts (concat (map (iteration_events oor) xs)) = xs"
  by (induction xs) (simp_all add: attempts_def iteration_events_def)

lemma sleeps_iterations:
  "sleeps (concat (map (iteration_events oor) xs)) = map (backoff_sleep oor) (filter (\<lambda>a. 0 < a) xs)"
  by (induction xs) (simp_all add: sleeps_def iteration_events_def)

lemma filter_pos_upto: "filter (\<lambda>a. 0 < a) [0..m] = [1..m]"
proof (cases "0 \<le> m")
  case True
  have "filter (\<lambda>a. (0::int) < a) [1..m] = [1..m]" by (rule filter_True) simp
  then show ?thesis using True by (simp add: upto_rec1 [of 0 m])
next
  case False
  then show ?thesis by simp
qed

lemma Upload_fail_then_succeed_trace:
  assumes "Upload_prepare pf s filePath = Inr data"
    and "Client s \<noteq> None"
    and "1 \<le> n" and "n \<le> Retries s"
    and "\<forall>i. 0 \<le> i \<and> i < n - 1 \<longrightarrow> (\<exists>b. respond i = Response 500 b)"
    and "respond (n - 1) = Response code (Some body)" "200 \<le> code" "code < 300"
  shows "fst (Upload pf respond s filePath) = Inr body"
    and "attempts (snd (Upload pf respond s filePath)) = [0..n - 1]"
    and "sleeps (snd (Upload pf respond s filePath)) =
           map (backoff_sleep (float_out_of_range pf)) [1..n - 1]"
proof -
  have run: "Upload pf respond s filePath =
    (Inr body, concat (map (iteration_events (float_out_of_range pf)) [0..n - 1]))"
    using uploadLoop_fail_then_succeed [OF assms(2) assms(5) assms(6-8) assms(4), of 0 _ _ None "[]"]
      assms(1,3)
    by (simp add: Upload_def uploadWithRetries_def)
  show "fst (Upload pf respond s filePath) = Inr body" by (simp add: run)
  show "attempts (snd (Upload pf respond s filePath)) = [0..n - 1]"
    by (simp add: run attempts_iterations)
  show "sleeps (snd (Upload pf respond s filePath)) =
           map (backoff_sleep (float_out_of_range pf)) [1..n - 1]"
    by (simp add: run sleeps_iterations filter_pos_upto)
qed

lemma backoff_small: "1 \<le> a \<Longrightarrow> a \<le> 37 \<Longrightarrow> backoff_sleep oor a = 2 ^ nat (a - 1) * (100 * Millisecond)"
proof -
  assume a: "1 \<le> a" "a \<le> 37"
  have "nat (a - 1) \<le> 36" using a by simp
  then have le: "(2::int) ^ nat (a - 1) \<le> 2 ^ 36" by (intro power_increasing) simp_all
  have 1: "(2::int) ^ nat (a - 1) * 100 < 2 ^ 63" using le by simp
  have 2: "(2::int) ^ nat (a - 1) * 100 * 1000000 < 2 ^ 63" using le by simp
  have 3: "0 \<le> (2::int) ^ nat (a - 1) * 100 * 1000000" by simp
  show ?thesis
    using 1 2 3 by (simp add: backoff_sleep_def float_to_int64_def wrap64_def Millisecond_def)
qed

lemma backoff_map_small:
  assumes "m \<le> 37"
  shows "map (backoff_sleep oor) [1..m] = map (\<lambda>a. 2 ^ nat (a - 1) * (100 * Millisecond)) [1..m]"
  using assms by (intro map_cong) (simp_all add: backoff_small)

lemma sorted_wrt_map_upto:
  assumes "\<And>i j. l \<le> i \<Longrightarrow> i < j \<Longrightarrow> j \<le> m \<Longrightarrow> f i < (f j :: int)"
  shows "sorted_wrt (<) (map f [l..m])"
  unfolding sorted_wrt_map
  by (rule sorted_wrt_mono_rel [where P = "(<)"]) (use assms in \<open>auto simp: sorted_wrt_iff_nth_less\<close>)


lemma backoff_sleep_1: "backoff_sleep oor 1 = 100 * Millisecond"
  using backoff_small [of 1 oor] by simp

lemma backoff_sleep_2: "backoff_sleep oor 2 = 200 * Millisecond"
  using backoff_small [of 2 oor] by simp

text \<open>
  Claim C2. With a retry budget of 3 and an endpoint that answers every request with status
  503, \<^verbatim>\<open>Upload\<close> sends exactly three requests (with sleeps of 100 ms and 200 ms between
  them) and returns the "upload failed after 3 attempts" error, which wraps the server error
  of the last request.
\<close>

theorem upload_always_503_three_attempts:
  assumes prep: "Upload_prepare pf s filePath = Inr data"
    and budget: "Retries s = 3"
    and client: "Client s \<noteq> None"
    and always: "\<forall>a. \<exists>body. respond a = Response 503 body"
  shows "Upload pf respond s filePath =
           (Inl (UploadFailedAfter 3 (Some (ServerError 503))),
            [Send 0, Sleep (100 * Millisecond), Send 1, Sleep (200 * Millisecond), Send 2]) \<and>
         attempts (snd (Upload pf respond s filePath)) = [0, 1, 2]"
proof -
  have once: "attempt_once respond s a = (Continue (ServerError 503), [Send a])" for a
  proof -
    obtain body where "respond a = Response 503 body" using always by blast
    then show ?thesis using client by (simp add: attempt_once_retryable)
  qed
  let ?oor = "float_out_of_range pf"
  have "uploadLoop ?oor respond s 0 None [] =
          uploadLoop ?oor respond s 1 (Some (ServerError 503)) [Send 0]"
    using uploadLoop_step_continue [OF _ once, of 0 ?oor None "[]"] budget by simp
  also have "\<dots> = uploadLoop ?oor respond s 2 (Some (ServerError 503))
                     [Send 0, Sleep (100 * Millisecond), Send 1]"
    using uploadLoop_step_continue [OF _ once, of 1 ?oor "Some (ServerError 503)" "[Send 0]"] budget
    by (simp add: backoff_sleep_1)
  also have "\<dots> = uploadLoop ?oor respond s 3 (Some (ServerError 503))
                     [Send 0, Sleep (100 * Millisecond), Send 1, Sleep (200 * Millisecond), Send 2]"
    using uploadLoop_step_continue [OF _ once, of 2 ?oor "Some (ServerError 503)"
        "[Send 0, Sleep (100 * Millisecond), Send 1]"] budget
    by (simp add: backoff_sleep_2)
  also have "\<dots> = (Inl (UploadFailedAfter 3 (Some (ServerError 503))),
                    [Send 0, Sleep (100 * Millisecond), Send 1, Sleep (200 * Millisecond), Send 2])"
    using uploadLoop_exhausted [of 3 s] budget by simp
  finally show ?thesis
    using prep by (simp add: Upload_def uploadWithRetries_def attempts_def)
qed

lemma test_prepare:
  "Upload_prepare test_platform (test_storage n) ''cpu.pprof'' = Inr ''test profile data''"
  by (simp add: Upload_prepare_def test_platform_def test_storage_def NewHTTPStorage_def
      readAndCompressFile_def)

lemma test_storage_fields:
  "Retries (test_storage n) = n" "Client (test_storage n) \<noteq> None"
  by (simp_all add: test_storage_def NewHTTPStorage_def)

text \<open>The hypotheses of C2 hold for a storage with three retries on the test platform.\<close>

theorem upload_always_503_three_attempts_witness:
  "Upload_prepare test_platform (test_storage 3) ''cpu.pprof'' = Inr ''test profile data'' \<and>
   Retries (test_storage 3) = 3 \<and> Client (test_storage 3) \<noteq> None \<and>
   (\<forall>a. \<exists>body. always_status 503 a = Response 503 body) \<and>
   Upload test_platform (always_status 503) (test_storage 3) ''cpu.pprof'' =
     (Inl (UploadFailedAfter 3 (Some (ServerError 503))),
      [Send 0, Sleep 100000000, Send 1, Sleep 200000000, Send 2])"
proof -
  have h: "\<forall>a. \<exists>body. always_status 503 a = Response 503 body"
    by (simp add: always_status_def)
  have p: "Upload_prepare test_platform (test_storage 3) ''cpu.pprof'' = Inr ''test profile data''"
    by (rule test_prepare)
  have b: "Retries (test_storage 3) = 3" by (rule test_storage_fields)
  have c: "Client (test_storage 3) \<noteq> None" by (rule test_storage_fields)
  show ?thesis
    using upload_always_503_three_attempts [OF p b c h] p b c h
    by (simp add: Millisecond_def)
qed

text \<open>
  Claim C3. When the first request is answered with status 401 or 403, \<^verbatim>\<open>Upload\<close>
  returns the authentication error after that one request: the trace holds a single
  \<open>Send\<close> and no \<open>Sleep\<close>.
\<close>

theorem upload_auth_failure_is_fatal:
  assumes "Upload_prepare pf s filePath = Inr data"
    and "0 < Retries s" and "Client s \<noteq> None"
    and "respond 0 = Response code body" and "code = 401 \<or> code = 403"
  shows "Upload pf respond s filePath = (Inl (AuthenticationFailed code), [Send 0])"
  using assms
  by (simp add: Upload_def uploadWithRetries_def uploadLoop_step_return [OF _ attempt_once_auth])

text \<open>The hypotheses of C3 hold for an endpoint that always answers 401.\<close>

theorem upload_auth_failure_is_fatal_witness:
  "Upload_prepare test_platform (test_storage 3) ''cpu.pprof'' = Inr ''test profile data'' \<and>
   0 < Retries (test_storage 3) \<and> Client (test_storage 3) \<noteq> None \<and>
   always_status 401 0 = Response 401 (Some []) \<and>
   Upload test_platform (always_status 401) (test_storage 3) ''cpu.pprof'' =
     (Inl (AuthenticationFailed 401), [Send 0])"
proof -
  have r: "always_status 401 0 = Response 401 (Some [])" by (simp add: always_status_def)
  have b: "0 < Retries (test_storage 3)" by (simp add: test_storage_fields)
  have p: "Upload_prepare test_platform (test_storage 3) ''cpu.pprof'' = Inr ''test profile data''"
    by (rule test_prepare)
  have c: "Client (test_storage 3) \<noteq> None" by (rule test_storage_fields)
  show ?thesis
    using upload_auth_failure_is_fatal [where respond = "always_status 401", OF p b c r] p b c r
    by simp
qed

text \<open>
  Claim C4, amended. For every \<open>n\<close> from 1 up to the retry budget and no greater than 38,
  when the endpoint answers the first \<open>n - 1\<close> requests with status 500 and request
  \<open>n\<close> with a 2xx status, \<^verbatim>\<open>Upload\<close> returns the body of that response, sends exactly
  \<open>n\<close> requests, and sleeps \<open>2 ^ (attempt - 1) * 100\<close> ms before the request of loop
  counter \<open>attempt = 1, \<dots>, n - 1\<close>: a strictly increasing sequence. Beyond 38 the
  duration no longer fits \<^verbatim>\<open>int64\<close> nanoseconds.
\<close>

theorem upload_succeeds_on_attempt_n:
  assumes "Upload_prepare pf s filePath = Inr data"
    and "Client s \<noteq> None"
    and "1 \<le> n" and "n \<le> Retries s" and "n \<le> 38"
    and "\<forall>i. 0 \<le> i \<and> i < n - 1 \<longrightarrow> (\<exists>b. respond i = Response 500 b)"
    and "respond (n - 1) = Response code (Some body)" and "200 \<le> code" and "code < 300"
  shows "fst (Upload pf respond s filePath) = Inr body \<and>
         attempts (snd (Upload pf respond s filePath)) = [0..n - 1] \<and>
         length (attempts (snd (Upload pf respond s filePath))) = nat n \<and>
         sleeps (snd (Upload pf respond s filePath)) =
           map (\<lambda>attempt. 2 ^ nat (attempt - 1) * (100 * Millisecond)) [1..n - 1] \<and>
         sorted_wrt (<) (sleeps (snd (Upload pf respond s filePath)))"
proof -
  note t = Upload_fail_then_succeed_trace [OF assms(1-4) assms(6-9)]
  have small: "n - 1 \<le> 37" using assms(5) by simp
  have sl: "sleeps (snd (Upload pf respond s filePath)) =
           map (\<lambda>attempt. 2 ^ nat (attempt - 1) * (100 * Millisecond)) [1..n - 1]"
    unfolding t(3) by (rule backoff_map_small [OF small])
  have "sorted_wrt (<) (map (\<lambda>attempt. (2::int) ^ nat (attempt - 1) * (100 * Millisecond)) [1..n - 1])"
    by (rule sorted_wrt_map_upto) (simp add: Millisecond_def)
  then have "sorted_wrt (<) (sleeps (snd (Upload pf respond s filePath)))"
    by (simp only: sl)
  moreover have "length [0..n - 1] = nat n" using assms(3) by simp
  ultimately show ?thesis using t(1,2) sl by simp
qed

text \<open>The hypotheses of C4 hold for \<open>n = 3\<close> and a budget of 3.\<close>

theorem upload_succeeds_on_attempt_n_witness:
  "Upload_prepare test_platform (test_storage 3) ''cpu.pprof'' = Inr ''test profile data'' \<and>
   Client (test_storage 3) \<noteq> None \<and> (1::int) \<le> 3 \<and> 3 \<le> Retries (test_storage 3) \<and>
   (3::int) \<le> 38 \<and>
   fail_then_succeed 3 ''loc'' 0 = Response 500 (Some []) \<and>
   fail_then_succeed 3 ''loc'' 1 = Response 500 (Some []) \<and>
   fail_then_succeed 3 ''loc'' 2 = Response 200 (Some ''loc'') \<and>
   fst (Upload test_platform (fail_then_succeed 3 ''loc'') (test_storage 3) ''cpu.pprof'') =
     Inr ''loc'' \<and>
   attempts (snd (Upload test_platform (fail_then_succeed 3 ''loc'') (test_storage 3)
     ''cpu.pprof'')) = [0, 1, 2] \<and>
   sleeps (snd (Upload test_platform (fail_then_succeed 3 ''loc'') (test_storage 3)
     ''cpu.pprof'')) = [100000000, 200000000]"
proof -
  have f: "\<forall>i. 0 \<le> i \<and> i < 3 - 1 \<longrightarrow> (\<exists>b. fail_then_succeed 3 ''loc'' i = Response 500 b)"
    by (simp add: fail_then_succeed_def)
  have g: "fail_then_succeed 3 ''loc'' (3 - 1) = Response 200 (Some ''loc'')"
    by (simp add: fail_then_succeed_def)
  have b: "3 \<le> Retries (test_storage 3)" by (simp add: test_storage_fields)
  have u: "[0..2::int] = [0, 1, 2]" "[1..2::int] = [1, 2]" by (simp_all add: upto_rec1)
  have p: "Upload_prepare test_platform (test_storage 3) ''cpu.pprof'' = Inr ''test profile data''"
    by (rule test_prepare)
  have c: "Client (test_storage 3) \<noteq> None" by (rule test_storage_fields)
  show ?thesis
    using upload_succeeds_on_attempt_n [where respond = "fail_then_succeed 3 ''loc''" and n = 3,
        OF p c _ b _ f g] p c b
    by (simp add: Millisecond_def u fail_then_succeed_def)
qed

text \<open>
  Claim C4 as stated fails for \<open>n = 39\<close> with a budget of 39: the argument of the last
  sleep is \<open>2 ^ 37 * 100\<close> ms, which wraps around to a negative number of nanoseconds, so
  the sleeps are not strictly increasing.
\<close>

theorem backoff_overflow_counterexample:
  "fst (Upload test_platform (fail_then_succeed 39 ''loc'') (test_storage 39) ''cpu.pprof'') =
     Inr ''loc'' \<and>
   \<not> sorted_wrt (<) (sleeps (snd (Upload test_platform (fail_then_succeed 39 ''loc'')
       (test_storage 39) ''cpu.pprof'')))"
proof -
  have f: "\<forall>i. 0 \<le> i \<and> i < 39 - 1 \<longrightarrow> (\<exists>b. fail_then_succeed 39 ''loc'' i = Response 500 b)"
    by (simp add: fail_then_succeed_def)
  have g: "fail_then_succeed 39 ''loc'' (39 - 1) = Response 200 (Some ''loc'')"
    by (simp add: fail_then_succeed_def)
  have b: "39 \<le> Retries (test_storage 39)" by (simp add: test_storage_fields)
  have p: "Upload_prepare test_platform (test_storage 39) ''cpu.pprof'' = Inr ''test profile data''"
    by (rule test_prepare)
  have c: "Client (test_storage 39) \<noteq> None" by (rule test_storage_fields)
  have t1: "fst (Upload test_platform (fail_then_succeed 39 ''loc'') (test_storage 39)
      ''cpu.pprof'') = Inr ''loc''"
    using Upload_fail_then_succeed_trace(1)
      [where respond = "fail_then_succeed 39 ''loc''" and n = 39, OF p c _ b f g] by simp
  have t3: "sleeps (snd (Upload test_platform (fail_then_succeed 39 ''loc'') (test_storage 39)
      ''cpu.pprof'')) = map (backoff_sleep (float_out_of_range test_platform)) [1..39 - 1]"
    using Upload_fail_then_succeed_trace(3)
      [where respond = "fail_then_succeed 39 ''loc''" and n = 39, OF p c _ b f g] by simp
  let ?sl = "sleeps (snd (Upload test_platform (fail_then_succeed 39 ''loc'')
       (test_storage 39) ''cpu.pprof''))"
  let ?oor = "float_out_of_range test_platform"
  have sl: "?sl = map (backoff_sleep ?oor) [1..38]" using t3 by simp
  have split: "[1..38::int] = [1..36] @ [37, 38]"
    using upto_split2 [of 1 36 38] by (simp add: upto_rec1)
  have v37: "backoff_sleep ?oor 37 = 6871947673600000000"
    by (simp add: backoff_sleep_def float_to_int64_def wrap64_def Millisecond_def)
  have v38: "backoff_sleep ?oor 38 = - 4702848726509551616"
    by (simp add: backoff_sleep_def float_to_int64_def wrap64_def Millisecond_def)
  have "\<not> sorted_wrt (<) (map (backoff_sleep ?oor) ([1..36] @ [37, 38]))"
    by (simp add: sorted_wrt_append v37 v38)
  then have "\<not> sorted_wrt (<) ?sl" unfolding sl split .
  then show ?thesis using t1 by simp
qed

text \<open>
  Claim C10, amended. For a storage whose \<^verbatim>\<open>Retries\<close> field is zero or negative,
  \<^verbatim>\<open>Upload\<close> sends no request and does not sleep; when its checks and the compression
  pass, it returns the "upload failed after \<open>Retries\<close> attempts" error wrapping nil, the
  number in the message being the field as stored. \<^verbatim>\<open>NewHTTPStorage\<close> sets the budget to 3;
  the struct literal of \<^verbatim>\<open>DefaultConfig\<close> leaves it 0.
\<close>

theorem upload_nonpositive_budget:
  "(Retries s \<le> 0 \<longrightarrow>
      snd (Upload pf respond s filePath) = [] \<and>
      (\<forall>data. Upload_prepare pf s filePath = Inr data \<longrightarrow>
         fst (Upload pf respond s filePath) = Inl (UploadFailedAfter (Retries s) None))) \<and>
   Retries (NewHTTPStorage url key env) = 3 \<and>
   (\<exists>st. Storage (DefaultConfig key ingest serviceName) = Some (HTTP st) \<and> Retries st = 0)"
  by (auto simp: Upload_def uploadWithRetries_def uploadLoop_exhausted NewHTTPStorage_def
      DefaultConfig_def split: sum.splits)

text \<open>
  The storage of \<^verbatim>\<open>DefaultConfig\<close> passes the checks on the test platform and fails after
  0 attempts.
\<close>

theorem upload_nonpositive_budget_witness:
  "Storage (DefaultConfig ''test-key'' ''https://api.pprofio.com'' ''test-service'') =
     Some (HTTP default_test_storage) \<and>
   Retries default_test_storage \<le> 0 \<and>
   Upload_prepare test_platform default_test_storage ''cpu.pprof'' = Inr ''test profile data'' \<and>
   Upload test_platform (always_status 200) default_test_storage ''cpu.pprof'' =
     (Inl (UploadFailedAfter 0 None), [])"
proof -
  have d: "Storage (DefaultConfig ''test-key'' ''https://api.pprofio.com'' ''test-service'') =
     Some (HTTP default_test_storage)"
    by (simp add: DefaultConfig_def default_test_storage_def)
  have r: "Retries default_test_storage \<le> 0" by (simp add: default_test_storage_def)
  have p: "Upload_prepare test_platform default_test_storage ''cpu.pprof'' =
      Inr ''test profile data''"
    by (simp add: Upload_prepare_def test_platform_def default_test_storage_def
        readAndCompressFile_def)
  have "Upload test_platform (always_status 200) default_test_storage ''cpu.pprof'' =
      (Inl (UploadFailedAfter (Retries default_test_storage) None), [])"
    using upload_nonpositive_budget [of default_test_storage test_platform "always_status 200"
        "''cpu.pprof''"] r p
    by (simp add: prod_eq_iff)
  then show ?thesis using d r p by (simp add: default_test_storage_def)
qed

text \<open>
  Claim C10 as stated fails for a negative budget: with \<^verbatim>\<open>Retries = -1\<close> the error reads
  "upload failed after -1 attempts", not "after 0 attempts".
\<close>

theorem upload_negative_budget_counterexample:
  "Retries (test_storage (- 1)) \<le> 0 \<and>
   fst (Upload test_platform (always_status 200) (test_storage (- 1)) ''cpu.pprof'') =
     Inl (UploadFailedAfter (- 1) None) \<and>
   fst (Upload test_platform (always_status 200) (test_storage (- 1)) ''cpu.pprof'') \<noteq>
     Inl (UploadFailedAfter 0 None)"
  by (simp add: Upload_def test_prepare uploadWithRetries_def uploadLoop_exhausted
      test_storage_fields)

lemma sendRequest_failed:
  assumes "client m \<noteq> None" "request_failed (respond a)"
  shows "sendRequest respond m a = (Failed (request_error (respond a)), [Send a])"
  using assms
  by (auto simp: sendRequest_def request_failed_def request_error_def
      split: http_outcome.splits option.splits)

lemma sendRequest_succeeded:
  assumes "client m \<noteq> None" "request_succeeded (respond a)"
  shows "sendRequest respond m a = (Sent, [Send a])"
  using assms
  by (auto simp: sendRequest_def request_succeeded_def split: http_outcome.splits option.splits)


lemma metadataLoop_step_failed:
  assumes "attempt < retries m" "sendRequest respond m attempt = (Failed e, evs)"
  shows "metadataLoop respond m attempt lastErr tr =
    metadataLoop respond m (attempt + 1) (Some e) (tr @ evs @ [Sleep (metadata_backoff attempt)])"
  using assms by (subst metadataLoop.simps) simp

lemma metadataLoop_step_sent:
  assumes "attempt < retries m" "sendRequest respond m attempt = (Sent, evs)"
  shows "metadataLoop respond m attempt lastErr tr = (None, tr @ evs)"
  using assms by (subst metadataLoop.simps) simp

lemma metadataLoop_failures:
  assumes cl: "client m \<noteq> None"
    and fails: "\<forall>i. a \<le> i \<and> i < n \<longrightarrow> request_failed (respond i)"
    and n: "n \<le> retries m"
  shows "a < n \<Longrightarrow> k = nat (n - a) \<Longrightarrow>
    metadataLoop respond m a lastErr tr =
      metadataLoop respond m n (Some (request_error (respond (n - 1))))
        (tr @ concat (map retry_events [a..n - 1]))"
  using fails
proof (induction k arbitrary: a lastErr tr)
  case 0
  then show ?case by simp
next
  case (Suc k)
  have lt: "a < retries m" using Suc.prems n by simp
  have f: "request_failed (respond a)" using Suc.prems by simp
  have once: "sendRequest respond m a = (Failed (request_error (respond a)), [Send a])"
    using cl f by (rule sendRequest_failed)
  have step: "metadataLoop respond m a lastErr tr =
      metadataLoop respond m (a + 1) (Some (request_error (respond a))) (tr @ retry_events a)"
    for lastErr tr
    using metadataLoop_step_failed [OF lt once] by (simp add: retry_events_def)
  show ?case
  proof (cases "a + 1 < n")
    case True
    have k: "k = nat (n - (a + 1))" using Suc.prems by simp
    have fs: "\<forall>i. a + 1 \<le> i \<and> i < n \<longrightarrow> request_failed (respond i)" using Suc.prems by simp
    have upto: "[a..n - 1] = a # [a + 1..n - 1]" using True by (simp add: upto_rec1)
    show ?thesis
      unfolding step Suc.IH [OF True k fs] upto by simp
  next
    case False
    then have e: "n = a + 1" using Suc.prems by simp
    show ?thesis unfolding step by (simp add: e)
  qed
qed





lemma sleeps_append: "sleeps (xs @ ys) = sleeps xs @ sleeps ys"
  by (simp add: sleeps_def)


lemma sendMetadata_succeeds_at:
  assumes "sendMetadata_prepare pf m metadata = Inr payload"
    and "client m \<noteq> None" and "0 \<le> k" and "k < retries m"
    and "\<forall>i. 0 \<le> i \<and> i < k \<longrightarrow> request_failed (respond i)"
    and "request_succeeded (respond k)"
  shows "sendMetadata pf respond m metadata =
     (None, concat (map retry_events [0..k - 1]) @ [Send k])"
proof -
  have once: "sendRequest respond m k = (Sent, [Send k])"
    using assms(2,6) by (rule sendRequest_succeeded)
  note last = metadataLoop_step_sent [OF assms(4) once]
  show ?thesis
  proof (cases "0 < k")
    case True
    have le: "k \<le> retries m" using assms(4) by simp
    show ?thesis
      using metadataLoop_failures [where respond = respond and a = 0 and n = k
          and lastErr = None and tr = "[]", OF assms(2) assms(5) le True] assms(1) last
      by (simp add: sendMetadata_def)
  next
    case False
    then have k: "k = 0" using assms(3) by simp
    show ?thesis
      using assms(1) last by (simp add: sendMetadata_def k)
  qed
qed



lemma test_metadata_client_fields:
  "client test_metadata_client \<noteq> None" "retries test_metadata_client = 3"
  by (simp_all add: test_metadata_client_def newMetadataClient_def)



section \<open>Restarting a profiler\<close>

lemma launch_fields:
  "stopCh (fst (launch e k pw)) = stopCh (fst pw)"
  "initialized (fst (launch e k pw)) = initialized (fst pw)"
  "config (fst (launch e k pw)) = config (fst pw)"
  "chans (snd (launch e k pw)) = chans (snd pw)"
  "span_processor (snd (launch e k pw)) = span_processor (snd pw)"
  by (simp_all add: launch_def split: prod.splits)

lemma launch_span_processor_fields:
  "stopCh (fst (launch_span_processor e pw)) = stopCh (fst pw)"
  "initialized (fst (launch_span_processor e pw)) = initialized (fst pw)"
  "config (fst (launch_span_processor e pw)) = config (fst pw)"
  "chans (snd (launch_span_processor e pw)) = chans (snd pw)"
  by (simp_all add: launch_span_processor_def split: prod.splits)

lemma knob_chans:
  "chans (SetMutexProfileFraction r w) = chans w"
  "chans (SetBlockProfileRate r w) = chans w"
  by (simp_all add: SetMutexProfileFraction_def SetBlockProfileRate_def)

lemma start_fresh:
  assumes "\<not> initialized p"
  shows "fst (start p w) = None"
    and "initialized (fst (snd (start p w)))"
    and "stopCh (fst (snd (start p w))) = stopCh p"
    and "config (fst (snd (start p w))) = config p"
    and "chans (snd (snd (start p w))) = chans w"
  using assms
  by (simp_all add: start_def Let_def split_beta launch_fields launch_span_processor_fields
      knob_chans)

lemma start_running:
  "initialized p \<Longrightarrow> start p w = (Some AlreadyStarted, p, w)"
  by (simp add: start_def)

lemma close_chan_closed:
  "c < length (chans w) \<Longrightarrow> is_closed (close_chan c w) c"
  by (simp add: is_closed_def close_chan_def)

lemma close_chan_length: "length (chans (close_chan c w)) = length (chans w)"
  by (simp add: close_chan_def)

lemma stop_running:
  assumes "initialized p" and "stopCh p < length (chans w)" and "stop p w = Some (p', w')"
  shows "\<not> initialized p'" and "stopCh p' = stopCh p" and "is_closed w' (stopCh p)"
    and "length (chans w') = length (chans w)" and "wg p' = 0"
proof -
  let ?w1 = "if is_closed w (stopCh p) then w else close_chan (stopCh p) w"
  have c: "is_closed ?w1 (stopCh p)" using assms(2) by (simp add: close_chan_closed)
  have l: "length (chans ?w1) = length (chans w)" by (simp add: close_chan_length)
  have r: "p' = p\<lparr>wg := 0, initialized := False\<rparr>"
    "w' = SetBlockProfileRate (originalBlockProfileRate p)
            (SetMutexProfileFraction (originalMutexFraction p)
              (?w1\<lparr> collectors := [], span_processor := None,
                     runtime_MemProfileRate := originalMemProfileRate p \<rparr>))"
    using assms(1,3) by (auto simp: stop_def Let_def split: if_splits)
  show "\<not> initialized p'" "stopCh p' = stopCh p" "wg p' = 0" by (simp_all add: r)
  show "is_closed w' (stopCh p)"
    using c unfolding r is_closed_def by (simp add: knob_chans)
  show "length (chans w') = length (chans w)"
    using l unfolding r by (simp add: knob_chans)
qed

lemma collectLoop_closed_returns:
  "collectLoop prefer_ticker True ((False, ctx_done) # schedule) n = (n, True)"
  by (simp add: ready_cases_def prefer_ticker_def)

text \<open>
  Claim C1 fails on the code. Whenever \<^verbatim>\<open>start\<close> succeeded and \<^verbatim>\<open>stop\<close> then returned, a
  second \<^verbatim>\<open>start\<close> succeeds and marks the profiler running, but it makes no channel: the
  stop channel is the one the first cycle closed. A collector it launches finds the stop
  case ready at its first \<^verbatim>\<open>select\<close> and, the ticker not having fired yet, returns after
  its one immediate collection, with no \<^verbatim>\<open>Stop\<close> called.
\<close>

theorem restart_reuses_closed_stop_channel:
  assumes "stopCh p < length (chans w)"
    and "start p w = (None, p1, w1)"
    and "stop p1 w1 = Some (p2, w2)"
  shows "\<exists>p3 w3. start p2 w2 = (None, p3, w3) \<and> initialized p3 \<and>
           stopCh p3 = stopCh p \<and> is_closed w3 (stopCh p3) \<and>
           length (chans w3) = length (chans w) \<and>
           (\<forall>schedule ctx_done.
              collectProfiles prefer_ticker p3 w3 ((False, ctx_done) # schedule) = (1, True))"
proof -
  have fresh: "\<not> initialized p" using assms(2) by (auto simp: start_def split: if_splits)
  have p1: "initialized p1" "stopCh p1 = stopCh p" "chans w1 = chans w"
    using start_fresh(2,3,5) [OF fresh, of w] assms(2) by simp_all
  have v: "stopCh p1 < length (chans w1)" using assms(1) p1 by simp
  note s = stop_running [OF p1(1) v assms(3)]
  let ?p3 = "fst (snd (start p2 w2))" and ?w3 = "snd (snd (start p2 w2))"
  have st: "start p2 w2 = (None, ?p3, ?w3)"
    using start_fresh(1) [OF s(1), of w2] by (simp add: prod_eq_iff)
  have i3: "initialized ?p3" by (rule start_fresh(2) [OF s(1)])
  have c3: "stopCh ?p3 = stopCh p" using start_fresh(3) [OF s(1), of w2] s(2) p1(2) by simp
  have ch: "chans ?w3 = chans w2" by (rule start_fresh(5) [OF s(1)])
  have cl: "is_closed ?w3 (stopCh ?p3)"
    using s(3) ch c3 p1(2) by (simp add: is_closed_def)
  have len: "length (chans ?w3) = length (chans w)" using ch s(4) p1(3) by simp
  have run: "collectProfiles prefer_ticker ?p3 ?w3 ((False, d) # schedule) = (1, True)"
    for schedule d
    unfolding collectProfiles_def using cl by (simp only: collectLoop_closed_returns)
  show ?thesis
    using st i3 c3 cl len run by blast
qed

lemma newProfiler_valid:
  assumes "validate cfg = (None, cfg')"
  shows "fst (newProfiler cfg w) =
           Inr \<lparr> config = cfg', stopCh = length (chans w), wg = 0, initialized = False,
                 spanCh = Suc (length (chans w)), originalMemProfileRate = 0,
                 originalMutexFraction = 0, originalBlockProfileRate = 0 \<rparr>"
    and "snd (newProfiler cfg w) =
           w\<lparr>chans := chans w @ [\<lparr>closed = False, buffer = [], capacity = 0\<rparr>,
                                  \<lparr>closed = False, buffer = [], capacity = 1000\<rparr>]\<rparr>"
  using assms by (simp_all add: newProfiler_def make_chan_def)

lemma newProfiler_invalid:
  assumes "fst (validate cfg) = Some err"
  shows "newProfiler cfg w = (Inl (InvalidConfiguration err), w)"
  using assms by (cases "validate cfg") (simp add: newProfiler_def)

lemma validate_cpu_config: "fst (validate cpu_config) = None"
  by (simp add: validate_def cpu_config_def test_config_def)

lemma test_profiler_fields:
  "\<not> initialized test_profiler" "stopCh test_profiler = 0" "length (chans test_world) = 2"
proof -
  obtain c where v: "validate cpu_config = (None, c)"
    using validate_cpu_config by (cases "validate cpu_config") simp
  show "\<not> initialized test_profiler" "stopCh test_profiler = 0" "length (chans test_world) = 2"
    unfolding test_profiler_def test_world_def newProfiler_valid [OF v]
    by (simp_all add: initial_world_def)
qed

lemma cpu_config_no_custom: "\<not> EnableCustom (config test_profiler)"
proof -
  obtain c where v: "validate cpu_config = (None, c)"
    using validate_cpu_config by (cases "validate cpu_config") simp
  have "c = enable_default_kinds (fill_defaults cpu_config)"
    using validate_success_shape(1) [OF v] .
  then have "\<not> EnableCustom c"
    by (simp add: enable_default_kinds_def fill_defaults_flags no_kind_enabled_def
        cpu_config_def test_config_def)
  then show ?thesis
    unfolding test_profiler_def newProfiler_valid [OF v] by simp
qed

lemma test_world_no_processor: "span_processor test_world = None"
proof -
  obtain c where v: "validate cpu_config = (None, c)"
    using validate_cpu_config by (cases "validate cpu_config") simp
  show ?thesis unfolding test_world_def newProfiler_valid [OF v] by (simp add: initial_world_def)
qed

lemma start_no_custom:
  assumes "\<not> initialized p" "\<not> EnableCustom (config p)"
  shows "span_processor (snd (snd (start p w))) = span_processor w"
  using assms
  by (simp add: start_def Let_def split_beta launch_fields launch_span_processor_def
      SetMutexProfileFraction_def SetBlockProfileRate_def)

lemma stop_not_deadlocked:
  assumes "span_processor w = None"
  shows "stop p w \<noteq> None"
  using assms by (simp add: stop_def Let_def deadlocked_def close_chan_def)

text \<open>
  The hypotheses of the restart theorem hold for the profiler that \<^verbatim>\<open>newProfiler\<close> builds
  from a valid configuration with CPU profiling enabled.
\<close>

theorem restart_reuses_closed_stop_channel_witness:
  "stopCh test_profiler < length (chans test_world) \<and>
   start test_profiler test_world = (None, started_profiler, started_world) \<and>
   stop started_profiler started_world = Some (stopped_profiler, stopped_world) \<and>
   (\<exists>p3 w3. start stopped_profiler stopped_world = (None, p3, w3) \<and> initialized p3 \<and>
      stopCh p3 = stopCh test_profiler \<and> is_closed w3 (stopCh p3) \<and>
      collectProfiles prefer_ticker p3 w3 [(False, False)] = (1, True))"
proof -
  note f = test_profiler_fields
  have a: "stopCh test_profiler < length (chans test_world)" by (simp add: f)
  have b: "start test_profiler test_world = (None, started_profiler, started_world)"
    using start_fresh(1) [OF f(1), of test_world]
    by (simp add: prod_eq_iff started_profiler_def started_world_def)
  have "span_processor started_world = None"
    unfolding started_world_def
    using start_no_custom [OF f(1) cpu_config_no_custom, of test_world] test_world_no_processor
    by simp
  then have "stop started_profiler started_world \<noteq> None" by (rule stop_not_deadlocked)
  then have c: "stop started_profiler started_world = Some (stopped_profiler, stopped_world)"
    by (auto simp: stopped_profiler_def stopped_world_def)
  from restart_reuses_closed_stop_channel [OF a b c]
  obtain p3 w3 where "start stopped_profiler stopped_world = (None, p3, w3)" "initialized p3"
    "stopCh p3 = stopCh test_profiler" "is_closed w3 (stopCh p3)"
    "collectProfiles prefer_ticker p3 w3 [(False, False)] = (1, True)"
    by blast
  then show ?thesis using a b c by blast
qed

section \<open>Identity fields\<close>

lemma zero_defaults_identity:
  "APIKey (zero_defaults c) = APIKey c" "IngestURL (zero_defaults c) = IngestURL c"
  by (simp_all add: zero_defaults_def Let_def)

lemma choose_storage_identity:
  "APIKey (choose_storage c) = APIKey c" "IngestURL (choose_storage c) = IngestURL c"
  by (simp_all add: choose_storage_def)

lemma New_identity:
  "\<exists>c'. New c w = newProfiler c' w \<and> APIKey c' = APIKey c \<and> IngestURL c' = IngestURL c"
proof (intro exI conjI)
  show "New c w = newProfiler (enable_default_kinds (choose_storage (zero_defaults c))) w"
    by (simp add: New_def)
qed (simp_all add: enable_default_kinds_fields choose_storage_identity zero_defaults_identity)

text \<open>
  Claim C7, amended. For every configuration that does not select stdout output, local
  file storage included, \<^verbatim>\<open>validate\<close> succeeds exactly when the API key, the ingest URL,
  the storage and the service name are all present. A missing API key, or a missing ingest
  URL beside a present key, is reported at construction: \<^verbatim>\<open>newProfiler\<close> and \<^verbatim>\<open>New\<close>
  return the error and build nothing.
\<close>

theorem identity_required_without_stdout:
  assumes "\<not> OutputToStdout c"
  shows "(fst (validate c) = None \<longleftrightarrow>
            APIKey c \<noteq> [] \<and> IngestURL c \<noteq> [] \<and> Storage c \<noteq> None \<and> ServiceName c \<noteq> []) \<and>
         (APIKey c = [] \<longrightarrow>
            fst (validate c) = Some APIKeyRequired \<and>
            newProfiler c w = (Inl (InvalidConfiguration APIKeyRequired), w) \<and>
            New c w = (Inl (InvalidConfiguration APIKeyRequired), w)) \<and>
         (APIKey c \<noteq> [] \<and> IngestURL c = [] \<longrightarrow>
            fst (validate c) = Some IngestURLRequired \<and>
            newProfiler c w = (Inl (InvalidConfiguration IngestURLRequired), w) \<and>
            New c w = (Inl (InvalidConfiguration IngestURLRequired), w))"
proof (intro conjI impI)
  show "fst (validate c) = None \<longleftrightarrow>
      APIKey c \<noteq> [] \<and> IngestURL c \<noteq> [] \<and> Storage c \<noteq> None \<and> ServiceName c \<noteq> []"
    by (simp add: validate_def)
next
  assume k: "APIKey c = []"
  obtain c' where n: "New c w = newProfiler c' w" "APIKey c' = APIKey c"
    using New_identity by blast
  have v: "fst (validate d) = Some APIKeyRequired" if "APIKey d = []" for d
    using that by (simp add: validate_def)
  show "fst (validate c) = Some APIKeyRequired" using k by (rule v)
  show "newProfiler c w = (Inl (InvalidConfiguration APIKeyRequired), w)"
    using v [OF k] by (rule newProfiler_invalid)
  show "New c w = (Inl (InvalidConfiguration APIKeyRequired), w)"
    unfolding n(1) using v [of c'] n(2) k by (simp add: newProfiler_invalid)
next
  assume k: "APIKey c \<noteq> [] \<and> IngestURL c = []"
  obtain c' where n: "New c w = newProfiler c' w" "APIKey c' = APIKey c"
    "IngestURL c' = IngestURL c"
    using New_identity by blast
  have v: "fst (validate d) = Some IngestURLRequired" if "APIKey d \<noteq> []" "IngestURL d = []" for d
    using that by (simp add: validate_def)
  show "fst (validate c) = Some IngestURLRequired" using k by (simp add: v)
  show "newProfiler c w = (Inl (InvalidConfiguration IngestURLRequired), w)"
    using k by (simp add: v newProfiler_invalid)
  show "New c w = (Inl (InvalidConfiguration IngestURLRequired), w)"
    unfolding n(1) using v [of c'] n(2,3) k by (simp add: newProfiler_invalid)
qed

text \<open>
  The hypotheses of C7 hold for a configuration with local file storage: without its API
  key; with the key and without the ingest URL; and, with both, validation succeeds.
\<close>

theorem identity_required_without_stdout_witness:
  "\<not> OutputToStdout file_config \<and> APIKey file_config = [] \<and>
   New file_config initial_world = (Inl (InvalidConfiguration APIKeyRequired), initial_world) \<and>
   \<not> OutputToStdout (file_config\<lparr>APIKey := ''test-api-key''\<rparr>) \<and>
   APIKey (file_config\<lparr>APIKey := ''test-api-key''\<rparr>) \<noteq> [] \<and>
   IngestURL (file_config\<lparr>APIKey := ''test-api-key''\<rparr>) = [] \<and>
   New (file_config\<lparr>APIKey := ''test-api-key''\<rparr>) initial_world =
     (Inl (InvalidConfiguration IngestURLRequired), initial_world) \<and>
   \<not> OutputToStdout file_config_with_identity \<and>
   fst (validate file_config_with_identity) = None"
proof -
  have a: "\<not> OutputToStdout file_config" "APIKey file_config = []"
    by (simp_all add: file_config_def test_config_def)
  have b: "\<not> OutputToStdout (file_config\<lparr>APIKey := ''test-api-key''\<rparr>)"
    "APIKey (file_config\<lparr>APIKey := ''test-api-key''\<rparr>) \<noteq> [] \<and>
     IngestURL (file_config\<lparr>APIKey := ''test-api-key''\<rparr>) = []"
    by (simp_all add: file_config_def test_config_def)
  have c: "\<not> OutputToStdout file_config_with_identity"
    "APIKey file_config_with_identity \<noteq> [] \<and> IngestURL file_config_with_identity \<noteq> [] \<and>
     Storage file_config_with_identity \<noteq> None \<and> ServiceName file_config_with_identity \<noteq> []"
    by (simp_all add: file_config_with_identity_def file_config_def test_config_def)
  show ?thesis
    using identity_required_without_stdout [OF a(1), of initial_world]
      identity_required_without_stdout [OF b(1), of initial_world]
      identity_required_without_stdout [OF c(1), of initial_world] a b c
    by simp
qed

text \<open>
  Claim C7 as stated fails: a configuration whose output is local file storage and whose
  identity fields are absent is rejected.
\<close>

theorem file_storage_needs_identity_counterexample:
  "Storage file_config = Some (File \<lparr> Directory = ''/tmp/pprofio-example'' \<rparr>) \<and>
   \<not> OutputToStdout file_config \<and> APIKey file_config = [] \<and> IngestURL file_config = [] \<and>
   fst (validate file_config) = Some APIKeyRequired \<and>
   fst (New file_config initial_world) = Inl (InvalidConfiguration APIKeyRequired)"
proof -
  have k: "fst (validate file_config) = Some APIKeyRequired"
    by (simp add: validate_def file_config_def test_config_def)
  obtain c' where n: "New file_config initial_world = newProfiler c' initial_world"
    "APIKey c' = APIKey file_config"
    using New_identity by blast
  have "APIKey c' = []" using n(2) by (simp add: file_config_def test_config_def)
  then have "fst (validate c') = Some APIKeyRequired" by (simp add: validate_def)
  then have "fst (New file_config initial_world) = Inl (InvalidConfiguration APIKeyRequired)"
    unfolding n(1) by (simp add: newProfiler_invalid)
  then show ?thesis using k by (simp add: file_config_def test_config_def)
qed

section \<open>The span processor\<close>

lemma on_span_running:
  assumes "status t = Running" "\<not> spansLock t"
  shows "on_span span t =
    t\<lparr>spansLock := True, spans := append_span (spans t) span, status := Deadlocked\<rparr>"
  using assms by (simp add: on_span_def Lock_def Let_def)

lemma span_step_deadlocked:
  assumes "span_processor w = Some t" "status t = Deadlocked"
  shows "span_step p w picked = w"
  using assms by (simp add: span_step_def)

lemma processCustomSpans_deadlocked:
  assumes "span_processor w = Some t" "status t = Deadlocked"
  shows "processCustomSpans p w picks = w"
  unfolding processCustomSpans_def
  using assms by (induction picks) (simp_all add: span_step_deadlocked)

lemma span_step_receive:
  assumes "span_processor w = Some t" "status t = Running"
    and "buffer (chans w ! spanCh p) = span # rest"
  shows "span_step p w SpanCase =
    w\<lparr> chans := (chans w)[spanCh p := (chans w ! spanCh p)\<lparr>buffer := rest\<rparr>],
       span_processor := Some (on_span span t) \<rparr>"
  using assms by (simp add: span_step_def Let_def)

lemma stop_deadlocked:
  assumes "initialized p" "span_processor w = Some t" "status t = Deadlocked"
  shows "stop p w = None"
  using assms by (simp add: stop_def Let_def deadlocked_def close_chan_def)

text \<open>
  Claim C9 fails on the code. Once the processor has received its first span it appends it,
  asks for the lock it already holds, and is blocked for good: whatever cases are picked
  afterwards, the spans still in the channel stay there, no snapshot is handed on, and
  \<^verbatim>\<open>stop\<close> never returns.
\<close>

theorem received_span_deadlocks_processor:
  assumes "span_processor w = Some t" and "status t = Running" and "\<not> spansLock t"
    and "spanCh p < length (chans w)"
    and "buffer (chans w ! spanCh p) = span # rest"
    and "initialized p"
  shows "span_processor (processCustomSpans p w (SpanCase # picks)) =
           Some (t\<lparr>spansLock := True, spans := append_span (spans t) span,
                   status := Deadlocked\<rparr>) \<and>
         handed (the (span_processor (processCustomSpans p w (SpanCase # picks)))) = handed t \<and>
         buffer (chans (processCustomSpans p w (SpanCase # picks)) ! spanCh p) = rest \<and>
         stop p (processCustomSpans p w (SpanCase # picks)) = None"
proof -
  let ?t = "t\<lparr>spansLock := True, spans := append_span (spans t) span, status := Deadlocked\<rparr>"
  let ?w = "w\<lparr> chans := (chans w)[spanCh p := (chans w ! spanCh p)\<lparr>buffer := rest\<rparr>],
       span_processor := Some ?t \<rparr>"
  have step: "span_step p w SpanCase = ?w"
    using span_step_receive [OF assms(1,2,5)] on_span_running [OF assms(2,3)] by simp
  have sp: "span_processor ?w = Some ?t" "status ?t = Deadlocked" by simp_all
  have run: "processCustomSpans p w (SpanCase # picks) = ?w"
    using processCustomSpans_deadlocked [OF sp, of p picks]
    by (simp add: processCustomSpans_def step)
  have "stop p ?w = None" using assms(6) sp by (rule stop_deadlocked)
  then show ?thesis
    unfolding run using assms(4) by simp
qed

lemma validate_custom_config:
  "validate custom_config = (None, enable_default_kinds (fill_defaults custom_config))"
  by (simp add: validate_def custom_config_def test_config_def)

lemma custom_profiler_fields:
  "\<not> initialized custom_profiler" "spanCh custom_profiler = 1"
  "EnableCustom (config custom_profiler)"
  unfolding custom_profiler_def newProfiler_valid [OF validate_custom_config]
  by (simp_all add: initial_world_def enable_default_kinds_def fill_defaults_flags
      no_kind_enabled_def custom_config_def test_config_def)

lemma custom_world_chans:
  "chans custom_world = [\<lparr>closed = False, buffer = [], capacity = 0\<rparr>,
                         \<lparr>closed = False, buffer = [], capacity = 1000\<rparr>]"
  unfolding custom_world_def newProfiler_valid [OF validate_custom_config]
  by (simp add: initial_world_def)

lemma start_custom:
  assumes "\<not> initialized p" "EnableCustom (config p)"
  shows "span_processor (snd (snd (start p w))) = Some new_span_task"
    and "spanCh (fst (snd (start p w))) = spanCh p"
  using assms
  by (simp_all add: start_def Let_def split_beta launch_span_processor_def launch_def)

lemma custom_started_fields:
  "initialized custom_started" "spanCh custom_started = 1"
  "span_processor custom_started_world = Some new_span_task"
  "chans custom_started_world = [\<lparr>closed = False, buffer = [], capacity = 0\<rparr>,
                                 \<lparr>closed = False, buffer = [], capacity = 1000\<rparr>]"
  unfolding custom_started_def custom_started_world_def
  using custom_profiler_fields
  by (simp_all add: start_fresh start_custom custom_world_chans)

lemma two_spans_started_fields:
  "span_processor two_spans_started = Some new_span_task"
  "chans two_spans_started =
     [\<lparr>closed = False, buffer = [], capacity = 0\<rparr>,
      \<lparr>closed = False, buffer = [test_span_1, test_span_2], capacity = 1000\<rparr>]"
  unfolding two_spans_started_def test_span_1_def test_span_2_def
  by (simp_all add: StartSpan_def send_span_def Let_def custom_started_fields)

text \<open>
  The hypotheses hold for a started profiler with custom spans enabled and two spans of
  one name accepted into its channel; the second span is still in the channel after a
  receive, a second receive and a flush have been picked.
\<close>

theorem received_span_deadlocks_processor_witness:
  "span_processor two_spans_started = Some new_span_task \<and>
   status new_span_task = Running \<and> \<not> spansLock new_span_task \<and>
   spanCh custom_started < length (chans two_spans_started) \<and>
   buffer (chans two_spans_started ! spanCh custom_started) = [test_span_1, test_span_2] \<and>
   initialized custom_started \<and>
   spans (the (span_processor (processCustomSpans custom_started two_spans_started
     [SpanCase, SpanCase, TickerCase]))) = [(''db.query'', [test_span_1])] \<and>
   handed (the (span_processor (processCustomSpans custom_started two_spans_started
     [SpanCase, SpanCase, TickerCase]))) = [] \<and>
   buffer (chans (processCustomSpans custom_started two_spans_started
     [SpanCase, SpanCase, TickerCase]) ! spanCh custom_started) = [test_span_2] \<and>
   stop custom_started (processCustomSpans custom_started two_spans_started
     [SpanCase, SpanCase, TickerCase]) = None"
proof -
  note f = two_spans_started_fields custom_started_fields
  have a: "status new_span_task = Running" "\<not> spansLock new_span_task"
    by (simp_all add: new_span_task_def)
  have b: "spanCh custom_started < length (chans two_spans_started)" by (simp add: f)
  have c: "buffer (chans two_spans_started ! spanCh custom_started) = [test_span_1, test_span_2]"
    by (simp add: f)
  have n: "Name test_span_1 = ''db.query''"
    by (simp add: test_span_1_def StartSpan_def Let_def)
  show ?thesis
    using received_span_deadlocks_processor [OF f(1) a b c f(3), of "[SpanCase, TickerCase]"]
      f(1,3) a b c
    by (simp add: new_span_task_def n)
qed

section \<open>The metadata record of an uploaded profile\<close>

lemma Upload_first_success:
  assumes "Upload_prepare pf s filePath = Inr data" and "0 < Retries s"
    and "Client s \<noteq> None"
  shows "fst (Upload pf (always_ok body) s filePath) = Inr body"
proof -
  have once: "attempt_once (always_ok body) s 0 = (Return (Inr body), [Send 0])"
    using assms(3) by (simp add: attempt_once_def always_ok_def split: option.splits)
  show ?thesis
    using assms(1) uploadLoop_step_return [OF assms(2) once]
    by (simp add: Upload_def uploadWithRetries_def)
qed

lemma build_metadata_fields:
  "Tags cfg ''profile_url'' = None \<Longrightarrow>
     build_metadata cfg response now ''profile_url'' = Some (ProfileURL response)"
  "Tags cfg ''type'' = None \<Longrightarrow> build_metadata cfg response now ''type'' = Some (Type response)"
  "Tags cfg ''service'' = None \<Longrightarrow> build_metadata cfg response now ''service'' = Some (ServiceName cfg)"
  "Tags cfg ''timestamp'' = None \<Longrightarrow> build_metadata cfg response now ''timestamp'' = Some (decimal now)"
  "Tags cfg key = Some val \<Longrightarrow> build_metadata cfg response now key = Some val"
  by (simp_all add: build_metadata_def map_add_def)

text \<open>
  Claim C5 fails on the code. \<^verbatim>\<open>uploadProfile\<close> does not put the locator into the record:
  it decodes the locator as JSON. When the locator does not decode, the call fails and no
  record is handed on; when it does, the record handed to the dispatcher or to stdout is
  built from the decoded fields, so that \<open>profile_url\<close> and \<open>type\<close> are fields of the
  response and not the locator and the profile kind; the record also holds \<open>profile_id\<close>.
\<close>

theorem uploadProfile_hands_decoded_response:
  assumes "Storage (config p) = Some st"
    and "fst (Storage_Upload pf respond_upload st filePath) = Inr locator"
  shows "(json_unmarshal pf locator = None \<longrightarrow>
            uploadProfile pf respond_upload respond_metadata now p filePath profileType =
              \<lparr> failure = Some ParseResponseFailed, dispatched = None, printed = None \<rparr>) \<and>
         (\<forall>response m.
            json_unmarshal pf locator = Some response \<and>
            (dispatched (uploadProfile pf respond_upload respond_metadata now p filePath
               profileType) = Some m \<or>
             printed (uploadProfile pf respond_upload respond_metadata now p filePath
               profileType) = Some m) \<longrightarrow>
            m = build_metadata (config p) response now \<and>
            (Tags (config p) ''profile_url'' = None \<longrightarrow>
               m ''profile_url'' = Some (ProfileURL response)) \<and>
            (Tags (config p) ''type'' = None \<longrightarrow> m ''type'' = Some (Type response)))"
proof (intro conjI impI allI)
  assume "json_unmarshal pf locator = None"
  then show "uploadProfile pf respond_upload respond_metadata now p filePath profileType =
      \<lparr> failure = Some ParseResponseFailed, dispatched = None, printed = None \<rparr>"
    using assms by (simp add: uploadProfile_def)
next
  fix response m
  assume h: "json_unmarshal pf locator = Some response \<and>
    (dispatched (uploadProfile pf respond_upload respond_metadata now p filePath profileType) =
       Some m \<or>
     printed (uploadProfile pf respond_upload respond_metadata now p filePath profileType) =
       Some m)"
  then show m: "m = build_metadata (config p) response now"
    using assms
    by (auto simp: uploadProfile_def Let_def split: if_splits Storage.splits option.splits)
  show "m ''profile_url'' = Some (ProfileURL response)" if "Tags (config p) ''profile_url'' = None"
    unfolding m using that by (rule build_metadata_fields)
  show "m ''type'' = Some (Type response)" if "Tags (config p) ''type'' = None"
    unfolding m using that by (rule build_metadata_fields)
qed

lemma decode_plain_locator: "decode_response plain_locator = None"
  by code_simp

lemma decode_json_locator:
  "decode_response json_locator =
     Some \<lparr> ProfileID = ''abc123'',
            ProfileURL = ''https://storage.pprofio.com/profiles/abc123.pprof'',
            Type = ''cpu'' \<rparr>"
  by code_simp

lemma decode_stdout: "decode_response ''stdout'' = None"
  by code_simp

lemma flow_profiler_fields:
  "Storage (config flow_profiler) = Some (HTTP (test_storage 3))"
  "\<not> OutputToStdout (config flow_profiler)"
  "Tags (config flow_profiler) ''profile_url'' = None"
  "Tags (config flow_profiler) ''type'' = None"
  "IngestURL (config flow_profiler) = ''https://api.pprofio.com''"
  "APIKey (config flow_profiler) = ''test-key''"
  by (simp_all add: flow_profiler_def test_config_def)

lemma flow_upload:
  "fst (Storage_Upload test_platform (always_ok body) (HTTP (test_storage 3)) ''cpu.pprof'') =
     Inr body"
  using Upload_first_success [OF test_prepare, of 3 body] test_storage_fields [of 3]
  by (simp add: Storage_Upload_def)

lemma test_metadata_delivered:
  "fst (sendMetadata test_platform (always_status 200) test_metadata_client m) = None"
proof -
  have p: "sendMetadata_prepare test_platform test_metadata_client m = Inr ''{}''"
    by (simp add: sendMetadata_prepare_def test_platform_def test_metadata_client_def
        newMetadataClient_def)
  have s: "request_succeeded (always_status 200 0)"
    by (simp add: request_succeeded_def always_status_def)
  have k: "(0::int) \<le> 0" "0 < retries test_metadata_client"
    by (simp_all add: test_metadata_client_fields)
  have f: "\<forall>i. 0 \<le> i \<and> i < 0 \<longrightarrow> request_failed (always_status 200 i)"
    by auto
  have "sendMetadata test_platform (always_status 200) test_metadata_client m =
     (None, concat (map retry_events [0..0 - 1]) @ [Send 0])"
    using p test_metadata_client_fields(1) k f s by (rule sendMetadata_succeeds_at)
  then show ?thesis by simp
qed

lemma test_unmarshal: "json_unmarshal test_platform = decode_response"
  by (simp add: test_platform_def)

lemma flow_outcome:
  "uploadProfile test_platform (always_ok json_locator) (always_status 200) now flow_profiler
     ''cpu.pprof'' kind =
   \<lparr> failure = None,
     dispatched = Some (build_metadata (config flow_profiler)
        \<lparr> ProfileID = ''abc123'',
          ProfileURL = ''https://storage.pprofio.com/profiles/abc123.pprof'',
          Type = ''cpu'' \<rparr> now),
     printed = None \<rparr>"
  by (simp add: uploadProfile_def flow_profiler_fields flow_upload test_unmarshal
      decode_json_locator Let_def test_metadata_delivered [unfolded test_metadata_client_def])

text \<open>
  In stdout mode the locator is the word \<^verbatim>\<open>stdout\<close>, which is no JSON document: the call
  fails before anything is printed.
\<close>

lemma stdout_outcome:
  "uploadProfile test_platform respond_upload respond_metadata now stdout_profiler
     ''cpu.pprof'' kind =
   \<lparr> failure = Some ParseResponseFailed, dispatched = None, printed = None \<rparr>"
proof -
  have u: "fst (Storage_Upload test_platform respond_upload Stdout ''cpu.pprof'') = Inr ''stdout''"
    by (simp add: Storage_Upload_def test_platform_def)
  have s: "Storage (config stdout_profiler) = Some Stdout"
    by (simp add: stdout_profiler_def)
  show ?thesis
    by (simp add: uploadProfile_def s u test_unmarshal decode_stdout)
qed

text \<open>
  The test \<^verbatim>\<open>TestUploadProfileWithCorrectFlow\<close>, whose endpoint answers with the bare URL:
  the call fails and dispatches nothing. With an endpoint that answers with a JSON object
  and the kind \<^verbatim>\<open>memory\<close>, the record's \<open>profile_url\<close> is the object's field, not the
  locator, and its \<open>type\<close> is \<^verbatim>\<open>cpu\<close>.
\<close>

theorem uploadProfile_hands_decoded_response_witness:
  "Storage (config flow_profiler) = Some (HTTP (test_storage 3)) \<and>
   fst (Storage_Upload test_platform (always_ok plain_locator) (HTTP (test_storage 3))
     ''cpu.pprof'') = Inr plain_locator \<and>
   json_unmarshal test_platform plain_locator = None \<and>
   uploadProfile test_platform (always_ok plain_locator) (always_status 200) 1609459200
     flow_profiler ''cpu.pprof'' ''cpu'' =
     \<lparr> failure = Some ParseResponseFailed, dispatched = None, printed = None \<rparr> \<and>
   fst (Storage_Upload test_platform (always_ok json_locator) (HTTP (test_storage 3))
     ''cpu.pprof'') = Inr json_locator \<and>
   json_unmarshal test_platform json_locator =
     Some \<lparr> ProfileID = ''abc123'',
            ProfileURL = ''https://storage.pprofio.com/profiles/abc123.pprof'',
            Type = ''cpu'' \<rparr> \<and>
   Tags (config flow_profiler) ''profile_url'' = None \<and>
   Tags (config flow_profiler) ''type'' = None \<and>
   the (dispatched (uploadProfile test_platform (always_ok json_locator) (always_status 200)
     1609459200 flow_profiler ''cpu.pprof'' ''memory'')) ''profile_url'' =
     Some ''https://storage.pprofio.com/profiles/abc123.pprof'' \<and>
   the (dispatched (uploadProfile test_platform (always_ok json_locator) (always_status 200)
     1609459200 flow_profiler ''cpu.pprof'' ''memory'')) ''profile_url'' \<noteq> Some json_locator \<and>
   the (dispatched (uploadProfile test_platform (always_ok json_locator) (always_status 200)
     1609459200 flow_profiler ''cpu.pprof'' ''memory'')) ''type'' = Some ''cpu''"
proof -
  note f = flow_profiler_fields
  have d1: "json_unmarshal test_platform plain_locator = None"
    by (simp add: test_unmarshal decode_plain_locator)
  have d2: "json_unmarshal test_platform json_locator =
     Some \<lparr> ProfileID = ''abc123'',
            ProfileURL = ''https://storage.pprofio.com/profiles/abc123.pprof'',
            Type = ''cpu'' \<rparr>"
    by (simp add: test_unmarshal decode_json_locator)
  note t1 = uploadProfile_hands_decoded_response [OF f(1) flow_upload,
      of plain_locator "always_status 200" 1609459200 "''cpu''"]
  note t2 = uploadProfile_hands_decoded_response [OF f(1) flow_upload,
      of json_locator "always_status 200" 1609459200 "''memory''"]
  let ?m = "the (dispatched (uploadProfile test_platform (always_ok json_locator)
     (always_status 200) 1609459200 flow_profiler ''cpu.pprof'' ''memory''))"
  have disp: "dispatched (uploadProfile test_platform (always_ok json_locator)
     (always_status 200) 1609459200 flow_profiler ''cpu.pprof'' ''memory'') = Some ?m"
    by (simp add: flow_outcome)
  from t2 d2 disp f(3,4) have r2:
    "?m ''profile_url'' = Some ''https://storage.pprofio.com/profiles/abc123.pprof''"
    "?m ''type'' = Some ''cpu''"
    by auto
  have ne: "Some ''https://storage.pprofio.com/profiles/abc123.pprof'' \<noteq> Some json_locator"
    by (simp add: json_locator_def)
  from t1 d1 have r1:
    "uploadProfile test_platform (always_ok plain_locator) (always_status 200) 1609459200
       flow_profiler ''cpu.pprof'' ''cpu'' =
     \<lparr> failure = Some ParseResponseFailed, dispatched = None, printed = None \<rparr>"
    by simp
  show ?thesis
    using r1 r2 ne d1 d2 f(1,3,4) flow_upload [of plain_locator] flow_upload [of json_locator]
    by simp
qed

end
